theory Spec2Isabelle
  imports Complex_Main "HOL-Library.Word"
begin

section \<open>JavaScript strings and the platform's text codecs\<close>

text \<open>
  A JavaScript string is a sequence of 16-bit code units. The sync client of
  \<^verbatim>\<open>src/utils/gitSync.ts\<close> sends file contents as
  \<^verbatim>\<open>btoa(unescape(encodeURIComponent(content)))\<close> and reads them back as
  \<^verbatim>\<open>decodeURIComponent(escape(atob(data.content.replace(/\s/g, ''))))\<close>.
  The six platform functions are written out here after their standards
  (ECMA-262 for the URI and escape functions, the HTML standard for
  \<^verbatim>\<open>btoa\<close> and \<^verbatim>\<open>atob\<close>); a thrown exception is the left summand.
\<close>

type_synonym jsstring = "16 word list"

definition ch :: "char \<Rightarrow> 16 word" where
  "ch c = of_nat (of_char c)"

definition js :: "string \<Rightarrow> jsstring" where
  "js s = map ch s"

datatype exn =
    TypeError
  | SyntaxError
  | URIError
  | InvalidCharacterError
  | NotConfigured
  | NetworkError
  | ModuleError

subsection \<open>Character classes\<close>

definition is_digit :: "16 word \<Rightarrow> bool" where
  "is_digit c = (48 \<le> c \<and> c \<le> 57)"

definition is_alpha :: "16 word \<Rightarrow> bool" where
  "is_alpha c = ((65 \<le> c \<and> c \<le> 90) \<or> (97 \<le> c \<and> c \<le> 122))"

text \<open>The characters \<^verbatim>\<open>encodeURIComponent\<close> leaves alone: letters, digits and
  \<^verbatim>\<open>- _ . ! ~ * ' ( )\<close>.\<close>

definition uriUnescaped :: "16 word \<Rightarrow> bool" where
  "uriUnescaped c = (is_alpha c \<or> is_digit c \<or>
     c = 45 \<or> c = 95 \<or> c = 46 \<or> c = 33 \<or> c = 126 \<or> c = 42 \<or> c = 39 \<or> c = 40 \<or> c = 41)"

text \<open>The characters \<^verbatim>\<open>escape\<close> leaves alone: letters, digits and
  \<^verbatim>\<open>@ * _ + - . /\<close>.\<close>

definition escapeUnescaped :: "16 word \<Rightarrow> bool" where
  "escapeUnescaped c = (is_alpha c \<or> is_digit c \<or>
     c = 64 \<or> c = 42 \<or> c = 95 \<or> c = 43 \<or> c = 45 \<or> c = 46 \<or> c = 47)"

text \<open>The class \<^verbatim>\<open>\s\<close> of a regular expression, which is also what
  \<^verbatim>\<open>String.prototype.trim\<close> removes.\<close>

definition js_space :: "16 word \<Rightarrow> bool" where
  "js_space c = ((9 \<le> c \<and> c \<le> 13) \<or> c = 32 \<or> c = 160 \<or> c = 5760 \<or>
     (8192 \<le> c \<and> c \<le> 8202) \<or> c = 8232 \<or> c = 8233 \<or> c = 8239 \<or> c = 8287 \<or>
     c = 12288 \<or> c = 65279)"

text \<open>ASCII whitespace of the HTML standard (tab, LF, FF, CR, space).\<close>

definition ascii_ws :: "16 word \<Rightarrow> bool" where
  "ascii_ws c = (c = 9 \<or> c = 10 \<or> c = 12 \<or> c = 13 \<or> c = 32)"

definition strip_space :: "jsstring \<Rightarrow> jsstring" where
  "strip_space s = filter (\<lambda>c. \<not> js_space c) s"

definition trim :: "jsstring \<Rightarrow> jsstring" where
  "trim s = rev (dropWhile js_space (rev (dropWhile js_space s)))"

fun str_includes :: "jsstring \<Rightarrow> jsstring \<Rightarrow> bool" where
  "str_includes [] t = (t = [])"
| "str_includes (c # cs) t = (take (length t) (c # cs) = t \<or> str_includes cs t)"

subsection \<open>Hexadecimal digits\<close>

definition hexdig :: "nat \<Rightarrow> 16 word" where
  "hexdig n = (if n < 10 then of_nat (48 + n) else of_nat (55 + n))"

definition hexval :: "16 word \<Rightarrow> nat option" where
  "hexval c = (if 48 \<le> c \<and> c \<le> 57 then Some (unat c - 48)
     else if 65 \<le> c \<and> c \<le> 70 then Some (unat c - 55)
     else if 97 \<le> c \<and> c \<le> 102 then Some (unat c - 87)
     else None)"

definition pct :: "nat \<Rightarrow> jsstring" where
  "pct b = [37, hexdig (b div 16), hexdig (b mod 16)]"

subsection \<open>UTF-8 and UTF-16\<close>

definition utf8 :: "nat \<Rightarrow> nat list" where
  "utf8 cp = (if cp < 128 then [cp]
     else if cp < 2048 then [192 + cp div 64, 128 + cp mod 64]
     else if cp < 65536 then [224 + cp div 4096, 128 + (cp div 64) mod 64, 128 + cp mod 64]
     else [240 + cp div 262144, 128 + (cp div 4096) mod 64,
           128 + (cp div 64) mod 64, 128 + cp mod 64])"

definition utf16 :: "nat \<Rightarrow> jsstring" where
  "utf16 cp = (if cp < 65536 then [of_nat cp]
     else [of_nat (55296 + (cp - 65536) div 1024), of_nat (56320 + (cp - 65536) mod 1024)])"

definition is_high :: "16 word \<Rightarrow> bool" where
  "is_high c = (55296 \<le> c \<and> c \<le> 56319)"

definition is_low :: "16 word \<Rightarrow> bool" where
  "is_low c = (56320 \<le> c \<and> c \<le> 57343)"

definition pair_cp :: "16 word \<Rightarrow> 16 word \<Rightarrow> nat" where
  "pair_cp h l = 65536 + (unat h - 55296) * 1024 + (unat l - 56320)"

subsection \<open>encodeURIComponent and unescape\<close>

text \<open>\<^verbatim>\<open>encodeURIComponent\<close> throws a URIError at a surrogate that has no partner.\<close>

fun encodeURIComponent :: "jsstring \<Rightarrow> exn + jsstring" where
  "encodeURIComponent [] = Inr []"
| "encodeURIComponent [c] =
     (if uriUnescaped c then Inr [c]
      else if is_high c \<or> is_low c then Inl URIError
      else Inr (concat (map pct (utf8 (unat c)))))"
| "encodeURIComponent (c # d # ds) =
     (if uriUnescaped c then
        (case encodeURIComponent (d # ds) of Inl e \<Rightarrow> Inl e | Inr r \<Rightarrow> Inr (c # r))
      else if is_low c then Inl URIError
      else if is_high c then
        (if is_low d then
           (case encodeURIComponent ds of Inl e \<Rightarrow> Inl e
            | Inr r \<Rightarrow> Inr (concat (map pct (utf8 (pair_cp c d))) @ r))
         else Inl URIError)
      else
        (case encodeURIComponent (d # ds) of Inl e \<Rightarrow> Inl e
         | Inr r \<Rightarrow> Inr (concat (map pct (utf8 (unat c))) @ r)))"

text \<open>\<^verbatim>\<open>unescape\<close> reads \<^verbatim>\<open>%uXXXX\<close> and \<^verbatim>\<open>%XX\<close> and copies everything else.\<close>

definition hex4 :: "jsstring \<Rightarrow> nat option" where
  "hex4 s = (case map hexval s of
       [Some a, Some b, Some c, Some d] \<Rightarrow> Some (((a * 16 + b) * 16 + c) * 16 + d)
     | _ \<Rightarrow> None)"

definition hex2 :: "jsstring \<Rightarrow> nat option" where
  "hex2 s = (case map hexval s of [Some a, Some b] \<Rightarrow> Some (a * 16 + b) | _ \<Rightarrow> None)"

fun unescape :: "jsstring \<Rightarrow> jsstring" where
  "unescape [] = []"
| "unescape (c # cs) =
     (if c = 37 \<and> 5 \<le> length cs \<and> hd cs = 117 \<and> hex4 (take 4 (tl cs)) \<noteq> None
      then of_nat (the (hex4 (take 4 (tl cs)))) # unescape (drop 5 cs)
      else if c = 37 \<and> 2 \<le> length cs \<and> hex2 (take 2 cs) \<noteq> None
      then of_nat (the (hex2 (take 2 cs))) # unescape (drop 2 cs)
      else c # unescape cs)"

subsection \<open>escape and decodeURIComponent\<close>

definition escape1 :: "16 word \<Rightarrow> jsstring" where
  "escape1 c = (if escapeUnescaped c then [c]
     else if c < 256 then pct (unat c)
     else [37, 117, hexdig (unat c div 4096), hexdig (unat c div 256 mod 16),
           hexdig (unat c div 16 mod 16), hexdig (unat c mod 16)])"

definition escape :: "jsstring \<Rightarrow> jsstring" where
  "escape s = concat (map escape1 s)"

text \<open>
  \<^verbatim>\<open>decodeURIComponent\<close> in two passes: the percent escapes become octets (a
  \<^verbatim>\<open>%\<close> that two hexadecimal digits do not follow is a URIError), then the
  octets are read as UTF-8 (an octet sequence that is not the UTF-8 encoding
  of a code point is a URIError).
\<close>

datatype token = Lit "16 word" | Octet nat

fun pct_tokens :: "jsstring \<Rightarrow> exn + token list" where
  "pct_tokens [] = Inr []"
| "pct_tokens (c # cs) =
     (if c = 37 then
        (case cs of
           a # b # rest \<Rightarrow>
             (case hex2 [a, b] of
                None \<Rightarrow> Inl URIError
              | Some v \<Rightarrow> (case pct_tokens rest of Inl e \<Rightarrow> Inl e | Inr r \<Rightarrow> Inr (Octet v # r)))
         | _ \<Rightarrow> Inl URIError)
      else (case pct_tokens cs of Inl e \<Rightarrow> Inl e | Inr r \<Rightarrow> Inr (Lit c # r)))"

definition cont :: "nat \<Rightarrow> bool" where
  "cont b = (128 \<le> b \<and> b < 192)"

fun utf8_tokens :: "token list \<Rightarrow> exn + jsstring" where
  "utf8_tokens [] = Inr []"
| "utf8_tokens (Lit c # ts) =
     (case utf8_tokens ts of Inl e \<Rightarrow> Inl e | Inr r \<Rightarrow> Inr (c # r))"
| "utf8_tokens (Octet b # ts) =
     (if b < 128 then
        (case utf8_tokens ts of Inl e \<Rightarrow> Inl e | Inr r \<Rightarrow> Inr (of_nat b # r))
      else if 192 \<le> b \<and> b < 224 then
        (case ts of
           Octet b1 # r1 \<Rightarrow>
             (let cp = (b - 192) * 64 + (b1 - 128) in
              if cont b1 \<and> 128 \<le> cp then
                (case utf8_tokens r1 of Inl e \<Rightarrow> Inl e | Inr r \<Rightarrow> Inr (utf16 cp @ r))
              else Inl URIError)
         | _ \<Rightarrow> Inl URIError)
      else if 224 \<le> b \<and> b < 240 then
        (case ts of
           Octet b1 # Octet b2 # r2 \<Rightarrow>
             (let cp = ((b - 224) * 64 + (b1 - 128)) * 64 + (b2 - 128) in
              if cont b1 \<and> cont b2 \<and> 2048 \<le> cp \<and> \<not> (55296 \<le> cp \<and> cp \<le> 57343) then
                (case utf8_tokens r2 of Inl e \<Rightarrow> Inl e | Inr r \<Rightarrow> Inr (utf16 cp @ r))
              else Inl URIError)
         | _ \<Rightarrow> Inl URIError)
      else if 240 \<le> b \<and> b < 248 then
        (case ts of
           Octet b1 # Octet b2 # Octet b3 # r3 \<Rightarrow>
             (let cp = (((b - 240) * 64 + (b1 - 128)) * 64 + (b2 - 128)) * 64 + (b3 - 128) in
              if cont b1 \<and> cont b2 \<and> cont b3 \<and> 65536 \<le> cp \<and> cp \<le> 1114111 then
                (case utf8_tokens r3 of Inl e \<Rightarrow> Inl e | Inr r \<Rightarrow> Inr (utf16 cp @ r))
              else Inl URIError)
         | _ \<Rightarrow> Inl URIError)
      else Inl URIError)"

definition decodeURIComponent :: "jsstring \<Rightarrow> exn + jsstring" where
  "decodeURIComponent s =
     (case pct_tokens s of Inl e \<Rightarrow> Inl e | Inr ts \<Rightarrow> utf8_tokens ts)"

subsection \<open>btoa and atob\<close>

definition b64char :: "nat \<Rightarrow> 16 word" where
  "b64char i = (if i < 26 then of_nat (65 + i)
     else if i < 52 then of_nat (71 + i)
     else if i < 62 then of_nat (i - 4)
     else if i = 62 then 43 else 47)"

definition b64val :: "16 word \<Rightarrow> nat option" where
  "b64val c = (if 65 \<le> c \<and> c \<le> 90 then Some (unat c - 65)
     else if 97 \<le> c \<and> c \<le> 122 then Some (unat c - 71)
     else if 48 \<le> c \<and> c \<le> 57 then Some (unat c + 4)
     else if c = 43 then Some 62
     else if c = 47 then Some 63
     else None)"

fun btoa_octets :: "nat list \<Rightarrow> jsstring" where
  "btoa_octets [] = []"
| "btoa_octets [a] = [b64char (a div 4), b64char (a mod 4 * 16), 61, 61]"
| "btoa_octets [a, b] =
     [b64char (a div 4), b64char (a mod 4 * 16 + b div 16), b64char (b mod 16 * 4), 61]"
| "btoa_octets (a # b # c # rest) =
     [b64char (a div 4), b64char (a mod 4 * 16 + b div 16),
      b64char (b mod 16 * 4 + c div 64), b64char (c mod 64)] @ btoa_octets rest"

text \<open>\<^verbatim>\<open>btoa\<close> throws at a code unit above 255.\<close>

definition btoa :: "jsstring \<Rightarrow> exn + jsstring" where
  "btoa s = (if \<forall>c \<in> set s. c < 256 then Inr (btoa_octets (map unat s))
     else Inl InvalidCharacterError)"

fun atob_sextets :: "nat list \<Rightarrow> nat list" where
  "atob_sextets (a # b # c # d # rest) =
     [a * 4 + b div 16, b mod 16 * 16 + c div 4, c mod 4 * 64 + d] @ atob_sextets rest"
| "atob_sextets [a, b, c] = [a * 4 + b div 16, b mod 16 * 16 + c div 4]"
| "atob_sextets [a, b] = [a * 4 + b div 16]"
| "atob_sextets _ = []"

definition strip_padding :: "jsstring \<Rightarrow> jsstring" where
  "strip_padding s =
     (if length s mod 4 = 0 \<and> s \<noteq> [] \<and> last s = 61 then
        (if last (butlast s) = 61 then butlast (butlast s) else butlast s)
      else s)"

fun sextets :: "jsstring \<Rightarrow> nat list option" where
  "sextets [] = Some []"
| "sextets (c # cs) =
     (case b64val c of None \<Rightarrow> None
      | Some v \<Rightarrow> (case sextets cs of None \<Rightarrow> None | Some vs \<Rightarrow> Some (v # vs)))"

text \<open>\<^verbatim>\<open>atob\<close> is the forgiving base64 decoder: ASCII whitespace is dropped, one or
  two padding signs are dropped from a length that is a multiple of four, a
  remaining length of 1 modulo 4 or a character outside the alphabet throws.\<close>

definition atob :: "jsstring \<Rightarrow> exn + jsstring" where
  "atob s =
     (let d = strip_padding (filter (\<lambda>c. \<not> ascii_ws c) s) in
      if length d mod 4 = 1 then Inl InvalidCharacterError
      else (case sextets d of
              None \<Rightarrow> Inl InvalidCharacterError
            | Some vs \<Rightarrow> Inr (map of_nat (atob_sextets vs))))"

subsection \<open>The two content codecs of the client\<close>

text \<open>\<^verbatim>\<open>btoa(unescape(encodeURIComponent(content)))\<close>, lines 436 and 521.\<close>

definition encodeContent :: "jsstring \<Rightarrow> exn + jsstring" where
  "encodeContent content =
     (case encodeURIComponent content of Inl e \<Rightarrow> Inl e | Inr u \<Rightarrow> btoa (unescape u))"

text \<open>\<^verbatim>\<open>decodeURIComponent(escape(atob(s)))\<close>, line 419, where \<open>s\<close> is the content
  field without its white space.\<close>

definition decodeContent :: "jsstring \<Rightarrow> exn + jsstring" where
  "decodeContent s =
     (case atob s of Inl e \<Rightarrow> Inl e | Inr b \<Rightarrow> decodeURIComponent (escape b))"

section \<open>JavaScript values\<close>

text \<open>
  What \<^verbatim>\<open>JSON.parse\<close> returns, what a module's \<^verbatim>\<open>getData\<close> returns
  (\<^verbatim>\<open>unknown\<close>) and what a property access yields. Numbers are carried as reals:
  the client only tests them for truthiness.
\<close>

datatype jsval =
    JUndefined
  | JNull
  | JBool bool
  | JNum real
  | JStr jsstring
  | JArr "jsval list"
  | JObj "(jsstring \<times> jsval) list"

fun truthy :: "jsval \<Rightarrow> bool" where
  "truthy JUndefined = False"
| "truthy JNull = False"
| "truthy (JBool b) = b"
| "truthy (JNum r) = (r \<noteq> 0)"
| "truthy (JStr s) = (s \<noteq> [])"
| "truthy (JArr xs) = True"
| "truthy (JObj fs) = True"

text \<open>\<^verbatim>\<open>v.k\<close>: a TypeError on \<^verbatim>\<open>undefined\<close> and \<^verbatim>\<open>null\<close>, the member of an
  object, \<^verbatim>\<open>undefined\<close> otherwise (the keys the client reads are no built-in
  properties of strings, numbers or arrays).\<close>

fun get_prop :: "jsval \<Rightarrow> jsstring \<Rightarrow> exn + jsval" where
  "get_prop JUndefined k = Inl TypeError"
| "get_prop JNull k = Inl TypeError"
| "get_prop (JObj fs) k = (case map_of fs k of None \<Rightarrow> Inr JUndefined | Some v \<Rightarrow> Inr v)"
| "get_prop v k = Inr JUndefined"

text \<open>\<^verbatim>\<open>v?.k\<close>\<close>

fun optprop :: "jsval \<Rightarrow> jsstring \<Rightarrow> jsval" where
  "optprop (JObj fs) k = (case map_of fs k of None \<Rightarrow> JUndefined | Some v \<Rightarrow> v)"
| "optprop v k = JUndefined"

text \<open>\<^verbatim>\<open>o.k = v\<close> on an object literal: an existing member keeps its place.\<close>

fun set_prop :: "jsstring \<Rightarrow> 'v \<Rightarrow> (jsstring \<times> 'v) list \<Rightarrow> (jsstring \<times> 'v) list" where
  "set_prop k v [] = [(k, v)]"
| "set_prop k v (p # ps) = (if fst p = k then (k, v) # ps else p # set_prop k v ps)"

text \<open>\<^verbatim>\<open>v.replace(/\s/g, '')\<close> and \<^verbatim>\<open>v.trim()\<close> exist on strings only.\<close>

fun js_replace_space :: "jsval \<Rightarrow> exn + jsstring" where
  "js_replace_space (JStr s) = Inr (strip_space s)"
| "js_replace_space v = Inl TypeError"

fun js_trim :: "jsval \<Rightarrow> exn + jsstring" where
  "js_trim (JStr s) = Inr (trim s)"
| "js_trim v = Inl TypeError"

subsection \<open>The digest as text\<close>

text \<open>\<^verbatim>\<open>CryptoJS.MD5(...).toString()\<close>: the 128-bit digest as 32 lower-case
  hexadecimal digits.\<close>

definition hexdig_lower :: "nat \<Rightarrow> 16 word" where
  "hexdig_lower n = (if n < 10 then of_nat (48 + n) else of_nat (87 + n))"

fun hex_digits :: "nat \<Rightarrow> nat \<Rightarrow> jsstring" where
  "hex_digits 0 v = []"
| "hex_digits (Suc k) v = hex_digits k (v div 16) @ [hexdig_lower (v mod 16)]"

definition toHex :: "128 word \<Rightarrow> jsstring" where
  "toHex w = hex_digits 32 (unat w)"

section \<open>The data model of the client\<close>

datatype provider_t = github | gitee

record GitConfig =
  provider :: provider_t
  token :: jsstring
  owner :: jsstring
  repo :: jsstring
  branch :: "jsstring option"

type_synonym storage = "jsstring \<rightharpoonup> jsstring"

text \<open>
  A module reads and writes the browser's local storage. \<^verbatim>\<open>getData\<close> may throw
  (the built-in modules call \<^verbatim>\<open>JSON.parse\<close> on what they find there), and so may
  \<^verbatim>\<open>setData\<close>, after having written a part.
\<close>

record DataModule =
  name :: jsstring
  localStorageKey :: jsstring
  filename :: jsstring
  getData :: "storage \<Rightarrow> exn + jsval"
  setData :: "jsval \<Rightarrow> storage \<Rightarrow> (exn + unit) \<times> storage"

record SyncStatus =
  status_filename :: jsstring
  localHash :: jsstring
  cloudHash :: jsval
  needsSync :: bool
  lastSyncTime :: jsval

record FileContent =
  content :: jsstring
  sha :: jsval

subsection \<open>Requests and responses\<close>

datatype http_method = GET | PUT | POST | DELETE

text \<open>The body of a request is the object that the client passes to
  \<^verbatim>\<open>JSON.stringify\<close> (which leaves out a member whose value is \<^verbatim>\<open>undefined\<close>).\<close>

record request = req_method :: http_method
  url :: jsstring
  authorization :: jsstring
  body :: "jsval option"

text \<open>What the network delivers: the flag \<^verbatim>\<open>ok\<close>, the status, what
  \<^verbatim>\<open>response.json()\<close> resolves to (\<open>None\<close> when the body is no JSON text) and what
  \<^verbatim>\<open>response.text()\<close> resolves to.\<close>

record netresponse =
  ok :: bool
  status :: nat
  json_body :: "jsval option"
  text_body :: jsstring

text \<open>A \<^verbatim>\<open>Response\<close> object is what the network delivered together with its
  identity: the body of one object can be read once.\<close>

type_synonym response = "nat \<times> netresponse"

subsection \<open>The platform\<close>

text \<open>
  The functions of the platform and of the libraries that the client calls
  and that are no part of the repository: the transport \<^verbatim>\<open>fetch\<close>, acting on
  the state \<open>'w\<close> of the remote side; \<^verbatim>\<open>JSON.parse\<close>; \<^verbatim>\<open>JSON.stringify\<close> with
  an indentation of two; \<^verbatim>\<open>CryptoJS.MD5\<close>; the AES encryption of a
  configuration under the fixed key, and its inverse together with the parse
  of the decrypted text (which throws on a text that is no UTF-8 or no JSON).
\<close>

text \<open>
  What \<^verbatim>\<open>JSON.parse\<close> makes of a decrypted configuration. The code casts the
  value to \<^verbatim>\<open>GitConfig | null\<close> without a check: \<open>NoConfig\<close> is \<^verbatim>\<open>null\<close> or another
  falsy value; \<open>NotAnObject\<close> is a truthy number, string or boolean, on which
  no property can be set; \<open>AConfig c\<close> is an object, read as the
  configuration \<open>c\<close>.
\<close>

datatype parsed_config = NoConfig | NotAnObject | AConfig GitConfig

record 'w platform =
  fetch :: "request \<Rightarrow> 'w \<Rightarrow> (exn + netresponse) \<times> 'w"
  JSON_parse :: "jsstring \<Rightarrow> exn + jsval"
  JSON_stringify :: "jsval \<Rightarrow> jsstring"
  MD5 :: "jsstring \<Rightarrow> 128 word"
  AES_encrypt :: "GitConfig \<Rightarrow> jsstring"
  AES_decrypt :: "jsstring \<Rightarrow> exn + parsed_config"

subsection \<open>The state of the client\<close>

text \<open>
  The fields of \<^verbatim>\<open>GitSyncClient\<close>, the local storage of the browser and the
  remote side. \<open>requestCache\<close> holds the settled outcome of each cached promise;
  \<open>bodyUsed\<close> the \<^verbatim>\<open>Response\<close> objects whose body has been read.
\<close>

record 'w client =
  config :: "GitConfig option"
  dataModules :: "DataModule list"
  localHashCache :: "jsstring \<rightharpoonup> jsval"
  requestCache :: "jsstring \<rightharpoonup> (exn + response)"
  bodyUsed :: "nat set"
  nextResponse :: nat
  localStorage :: storage
  remote :: 'w

definition STORAGE_KEY :: jsstring where
  "STORAGE_KEY = js ''git-sync-config-encrypted''"

definition SYNC_PREFIX :: jsstring where
  "SYNC_PREFIX = js ''sync-''"

section \<open>Computations that change the state and may throw\<close>

type_synonym ('w, 'a) comp = "'w client \<Rightarrow> (exn + 'a) \<times> 'w client"

definition ret :: "'a \<Rightarrow> ('w, 'a) comp" where
  "ret x = (\<lambda>s. (Inr x, s))"

definition throw :: "exn \<Rightarrow> ('w, 'a) comp" where
  "throw e = (\<lambda>s. (Inl e, s))"

definition lift :: "exn + 'a \<Rightarrow> ('w, 'a) comp" where
  "lift r = (\<lambda>s. (r, s))"

definition seq :: "('w, 'a) comp \<Rightarrow> ('a \<Rightarrow> ('w, 'b) comp) \<Rightarrow> ('w, 'b) comp" where
  "seq m f = (\<lambda>s. case m s of (Inl e, s') \<Rightarrow> (Inl e, s') | (Inr x, s') \<Rightarrow> f x s')"

text \<open>\<^verbatim>\<open>try { m } catch (error) { h }\<close>: what \<open>m\<close> did to the state before it threw
  stays done.\<close>

definition try_catch :: "('w, 'a) comp \<Rightarrow> (exn \<Rightarrow> ('w, 'a) comp) \<Rightarrow> ('w, 'a) comp" where
  "try_catch m h = (\<lambda>s. case m s of (Inl e, s') \<Rightarrow> h e s' | (Inr x, s') \<Rightarrow> (Inr x, s'))"

definition get_state :: "('w, 'w client) comp" where
  "get_state = (\<lambda>s. (Inr s, s))"

section \<open>Requests\<close>

definition apiBase :: "GitConfig \<Rightarrow> jsstring" where
  "apiBase c = (if provider c = github then js ''https://api.github.com''
                else js ''https://gitee.com/api/v5'')"

definition getApiBase :: "('w, jsstring) comp" where
  "getApiBase = (\<lambda>s. case config s of
       None \<Rightarrow> (Inl NotConfigured, s)
     | Some c \<Rightarrow> (Inr (apiBase c), s))"

definition repoPath :: "GitConfig \<Rightarrow> jsstring" where
  "repoPath c = js ''repos/'' @ owner c @ js ''/'' @ repo c"

definition getRepoPath :: "('w, jsstring) comp" where
  "getRepoPath = (\<lambda>s. case config s of
       None \<Rightarrow> (Inl NotConfigured, s)
     | Some c \<Rightarrow> (Inr (repoPath c), s))"

fun method_name :: "http_method \<Rightarrow> jsstring" where
  "method_name GET = js ''GET''"
| "method_name PUT = js ''PUT''"
| "method_name POST = js ''POST''"
| "method_name DELETE = js ''DELETE''"

text \<open>The promise of a read is entered into the request cache when it is made.\<close>

definition settle :: "http_method \<Rightarrow> jsstring \<Rightarrow> exn + response \<Rightarrow> ('w, response) comp" where
  "settle m cacheKey out = (\<lambda>s.
     (out, if m = GET then s\<lparr>requestCache := (requestCache s)(cacheKey \<mapsto> out)\<rparr> else s))"

text \<open>
  \<^verbatim>\<open>apiRequest\<close>, lines 209 to 250. A read whose key is in the request cache
  gets the cached promise, hence the same \<^verbatim>\<open>Response\<close> object; every other
  request goes to the network. The timer that the function starts is the
  event \<open>cacheTimeout\<close> below.
\<close>

definition apiRequest ::
  "'w platform \<Rightarrow> jsstring \<Rightarrow> http_method \<Rightarrow> jsval option \<Rightarrow> ('w, response) comp" where
  "apiRequest P endpoint m b = (\<lambda>s.
     case config s of
       None \<Rightarrow> (Inl NotConfigured, s)
     | Some c \<Rightarrow>
        (let u = apiBase c @ js ''/'' @ endpoint;
             cacheKey = method_name m @ js ''-'' @ u
         in case (if m = GET then requestCache s cacheKey else None) of
              Some cached \<Rightarrow> (cached, s)
            | None \<Rightarrow>
               (case fetch P \<lparr>req_method = m, url = u,
                               authorization = js ''token '' @ token c, body = b\<rparr> (remote s) of
                  (Inl e, w) \<Rightarrow> settle m cacheKey (Inl e) (s\<lparr>remote := w\<rparr>)
                | (Inr r, w) \<Rightarrow>
                    settle m cacheKey (Inr (nextResponse s, r))
                      (s\<lparr>remote := w, nextResponse := Suc (nextResponse s)\<rparr>))))"

text \<open>The timer of line 244 fires, five seconds after the read was made.\<close>

definition cacheTimeout :: "jsstring \<Rightarrow> 'w client \<Rightarrow> 'w client" where
  "cacheTimeout cacheKey s = s\<lparr>requestCache := (requestCache s)(cacheKey := None)\<rparr>"

text \<open>\<^verbatim>\<open>response.json()\<close> and \<^verbatim>\<open>response.text()\<close>: a TypeError when the body of the
  object has been read before.\<close>

definition response_json :: "response \<Rightarrow> ('w, jsval) comp" where
  "response_json r = (\<lambda>s.
     if fst r \<in> bodyUsed s then (Inl TypeError, s)
     else (case json_body (snd r) of None \<Rightarrow> Inl SyntaxError | Some v \<Rightarrow> Inr v,
           s\<lparr>bodyUsed := insert (fst r) (bodyUsed s)\<rparr>))"

definition response_text :: "response \<Rightarrow> ('w, jsstring) comp" where
  "response_text r = (\<lambda>s.
     if fst r \<in> bodyUsed s then (Inl TypeError, s)
     else (Inr (text_body (snd r)), s\<lparr>bodyUsed := insert (fst r) (bodyUsed s)\<rparr>))"

section \<open>Configuration\<close>

definition encryptConfig :: "'w platform \<Rightarrow> GitConfig \<Rightarrow> jsstring" where
  "encryptConfig P c = AES_encrypt P c"

text \<open>\<^verbatim>\<open>decryptConfig\<close>, lines 182 to 191: an exception of the decryption or of
  the parse becomes \<^verbatim>\<open>null\<close>; what was parsed is returned as it is.\<close>

definition decryptConfig :: "'w platform \<Rightarrow> jsstring \<Rightarrow> parsed_config" where
  "decryptConfig P encryptedConfig =
     (case AES_decrypt P encryptedConfig of Inl e \<Rightarrow> NoConfig | Inr v \<Rightarrow> v)"

text \<open>\<^verbatim>\<open>if (!config.branch) config.branch = config.provider === 'gitee' ? 'master' : 'main'\<close>\<close>

definition defaultBranch :: "GitConfig \<Rightarrow> GitConfig" where
  "defaultBranch c =
     (if branch c = None \<or> branch c = Some [] then
        c\<lparr>branch := Some (if provider c = gitee then js ''master'' else js ''main'')\<rparr>
      else c)"

definition saveConfig :: "'w platform \<Rightarrow> GitConfig \<Rightarrow> ('w, unit) comp" where
  "saveConfig P c0 = (\<lambda>s.
     let c = defaultBranch c0;
         encrypted = encryptConfig P c
     in (Inr (), s\<lparr>localStorage := (localStorage s)(STORAGE_KEY \<mapsto> encrypted),
                    config := Some c\<rparr>))"

text \<open>
  \<^verbatim>\<open>loadConfig\<close>, lines 265 to 278. The function has no try/catch: when the
  decrypted value is truthy and no object, the assignment
  \<^verbatim>\<open>config.branch = ...\<close> of line 273 throws a TypeError (the module is strict
  code), and the exception reaches the caller.
\<close>

definition loadConfig :: "'w platform \<Rightarrow> ('w, GitConfig option) comp" where
  "loadConfig P = (\<lambda>s.
     case localStorage s STORAGE_KEY of
       None \<Rightarrow> (Inr None, s)
     | Some encrypted \<Rightarrow>
        (if encrypted = [] then (Inr None, s)
         else (case decryptConfig P encrypted of
                 NoConfig \<Rightarrow> (Inr None, s)
               | NotAnObject \<Rightarrow> (Inl TypeError, s)
               | AConfig c \<Rightarrow>
                   (Inr (Some (defaultBranch c)), s\<lparr>config := Some (defaultBranch c)\<rparr>))))"



section \<open>Hashes\<close>

definition generateDataHash :: "'w platform \<Rightarrow> jsval \<Rightarrow> jsstring" where
  "generateDataHash P d = toHex (MD5 P (JSON_stringify P d))"

definition getLocalDataHash :: "'w platform \<Rightarrow> DataModule \<Rightarrow> ('w, jsstring) comp" where
  "getLocalDataHash P m = (\<lambda>s.
     case getData m (localStorage s) of
       Inl e \<Rightarrow> (Inl e, s)
     | Inr d \<Rightarrow> (Inr (generateDataHash P d), s))"

text \<open>\<^verbatim>\<open>this.localHashCache.get(k)\<close> and \<^verbatim>\<open>this.localHashCache.set(k, v)\<close>\<close>

definition cache_get :: "'w client \<Rightarrow> jsstring \<Rightarrow> jsval" where
  "cache_get s k = (case localHashCache s k of None \<Rightarrow> JUndefined | Some v \<Rightarrow> v)"

definition cache_set :: "jsstring \<Rightarrow> jsval \<Rightarrow> ('w, unit) comp" where
  "cache_set k v = (\<lambda>s. (Inr (), s\<lparr>localHashCache := (localHashCache s)(k \<mapsto> v)\<rparr>))"

text \<open>\<^verbatim>\<open>hasDataChanged\<close>, lines 298 to 320.\<close>

definition hasDataChanged :: "'w platform \<Rightarrow> DataModule \<Rightarrow> ('w, bool) comp" where
  "hasDataChanged P m =
     try_catch
       (seq (getLocalDataHash P m) (\<lambda>currentHash.
        seq get_state (\<lambda>s.
        let cachedHash = cache_get s (name m) in
        if \<not> truthy cachedHash then
          seq (cache_set (name m) (JStr currentHash)) (\<lambda>_. ret False)
        else if cachedHash \<noteq> JStr currentHash then
          seq (cache_set (name m) (JStr currentHash)) (\<lambda>_. ret True)
        else ret False)))
       (\<lambda>e. ret False)"




section \<open>Files of the remote repository\<close>

text \<open>\<^verbatim>\<open>this.config?.branch || d\<close> and \<^verbatim>\<open>this.config?.provider === p\<close>\<close>

definition branch_or :: "'w client \<Rightarrow> jsstring \<Rightarrow> jsstring" where
  "branch_or s d =
     (case config s of
        None \<Rightarrow> d
      | Some c \<Rightarrow> (case branch c of None \<Rightarrow> d | Some b \<Rightarrow> if b = [] then d else b))"

definition provider_is :: "'w client \<Rightarrow> provider_t \<Rightarrow> bool" where
  "provider_is s p = (case config s of None \<Rightarrow> False | Some c \<Rightarrow> provider c = p)"

text \<open>\<^verbatim>\<open>getFileContent\<close>, lines 408 to 431: every exception becomes \<^verbatim>\<open>null\<close>.\<close>

definition getFileContent :: "'w platform \<Rightarrow> jsstring \<Rightarrow> ('w, FileContent option) comp" where
  "getFileContent P path =
     try_catch
       (seq getRepoPath (\<lambda>rp.
        seq get_state (\<lambda>s.
        seq (apiRequest P (rp @ js ''/contents/'' @ path @ js ''?ref='' @ branch_or s (js ''main''))
               GET None) (\<lambda>response.
        if ok (snd response) then
          seq (response_json response) (\<lambda>data.
          seq (lift (get_prop data (js ''content''))) (\<lambda>c.
          if truthy c then
            seq (lift (js_replace_space c)) (\<lambda>stripped.
            seq (lift (decodeContent stripped)) (\<lambda>decoded.
            seq (lift (get_prop data (js ''sha''))) (\<lambda>sh.
            ret (Some \<lparr>content = decoded, sha = sh\<rparr>))))
          else ret None))
        else ret None))))
       (\<lambda>e. ret None)"

text \<open>\<^verbatim>\<open>const result = await response.json(); return result.content !== undefined\<close>,
  lines 486 to 488 and 504 to 505.\<close>

definition put_result :: "response \<Rightarrow> ('w, bool) comp" where
  "put_result r =
     seq (response_json r) (\<lambda>result.
     seq (lift (get_prop result (js ''content''))) (\<lambda>c.
     ret (c \<noteq> JUndefined)))"

text \<open>The first creation strategy, lines 545 to 576: one POST.\<close>

definition tryPostCreate ::
  "'w platform \<Rightarrow> jsstring \<Rightarrow> jsstring \<Rightarrow> jsstring \<Rightarrow> ('w, bool) comp" where
  "tryPostCreate P path message encodedContent =
     try_catch
       (seq get_state (\<lambda>s.
        let requestData = JObj [(js ''message'', JStr message),
                                (js ''content'', JStr encodedContent),
                                (js ''branch'', JStr (branch_or s (js ''master'')))] in
        seq getRepoPath (\<lambda>rp.
        seq (apiRequest P (rp @ js ''/contents/'' @ path) POST (Some requestData)) (\<lambda>response.
        ret (ok (snd response))))))
       (\<lambda>e. ret False)"

text \<open>The second creation strategy, lines 579 to 629: an empty file is put, then
  the content is put with the token that the first answer carries.\<close>

definition tryCreateThenUpdate ::
  "'w platform \<Rightarrow> jsstring \<Rightarrow> jsstring \<Rightarrow> jsstring \<Rightarrow> ('w, bool) comp" where
  "tryCreateThenUpdate P path message encodedContent =
     try_catch
       (seq (lift (btoa [])) (\<lambda>emptyContent.
        seq get_state (\<lambda>s.
        let createData = JObj [(js ''message'', JStr ([0x521D, 0x59CB, 0x5316, 0x6587, 0x4EF6] @ js '': '' @ path)),
                               (js ''content'', JStr emptyContent),
                               (js ''branch'', JStr (branch_or s (js ''master'')))] in
        seq getRepoPath (\<lambda>rp.
        let endpoint = rp @ js ''/contents/'' @ path in
        seq (apiRequest P endpoint PUT (Some createData)) (\<lambda>createResponse.
        if ok (snd createResponse) then
          seq (response_json createResponse) (\<lambda>createResult.
          seq (lift (get_prop createResult (js ''content''))) (\<lambda>c.
          let sh = optprop c (js ''sha'') in
          if truthy sh then
            (let updateData = JObj [(js ''message'', JStr message),
                                    (js ''content'', JStr encodedContent),
                                    (js ''sha'', sh),
                                    (js ''branch'', JStr (branch_or s (js ''master'')))] in
             seq (apiRequest P endpoint PUT (Some updateData)) (\<lambda>updateResponse.
             ret (ok (snd updateResponse))))
          else ret False))
        else ret False)))))
       (\<lambda>e. ret False)"

text \<open>The third creation strategy, lines 632 to 661: one PUT with the token
  \<^verbatim>\<open>''\<close>.\<close>

definition tryPutWithEmptySha ::
  "'w platform \<Rightarrow> jsstring \<Rightarrow> jsstring \<Rightarrow> jsstring \<Rightarrow> ('w, bool) comp" where
  "tryPutWithEmptySha P path message encodedContent =
     try_catch
       (seq get_state (\<lambda>s.
        let requestData = JObj [(js ''message'', JStr message),
                                (js ''content'', JStr encodedContent),
                                (js ''branch'', JStr (branch_or s (js ''master''))),
                                (js ''sha'', JStr [])] in
        seq getRepoPath (\<lambda>rp.
        seq (apiRequest P (rp @ js ''/contents/'' @ path) PUT (Some requestData)) (\<lambda>response.
        ret (ok (snd response))))))
       (\<lambda>e. ret False)"

text \<open>\<^verbatim>\<open>createNewFileForGitee\<close>, lines 519 to 542.\<close>

definition createNewFileForGitee ::
  "'w platform \<Rightarrow> jsstring \<Rightarrow> jsstring \<Rightarrow> jsstring \<Rightarrow> ('w, bool) comp" where
  "createNewFileForGitee P path contentText message =
     try_catch
       (seq (lift (encodeContent contentText)) (\<lambda>encodedContent.
        seq (tryPostCreate P path message encodedContent) (\<lambda>postResult.
        if postResult then ret True
        else
          seq (tryCreateThenUpdate P path message encodedContent) (\<lambda>emptyCreateResult.
          if emptyCreateResult then ret True
          else
            seq (tryPutWithEmptySha P path message encodedContent) (\<lambda>putEmptyResult.
            if putEmptyResult then ret True else ret False)))))
       (\<lambda>e. ret False)"

text \<open>\<^verbatim>\<open>createOrUpdateFile\<close>, lines 434 to 516. \<open>existingSha\<close> is \<open>JUndefined\<close> when
  the caller passes none.\<close>

definition createOrUpdateFile ::
  "'w platform \<Rightarrow> jsstring \<Rightarrow> jsstring \<Rightarrow> jsstring \<Rightarrow> jsval \<Rightarrow> ('w, bool) comp" where
  "createOrUpdateFile P path contentText message existingSha =
     try_catch
       (seq (lift (encodeContent contentText)) (\<lambda>encodedContent.
        seq (if \<not> truthy existingSha then
               seq (getFileContent P path) (\<lambda>existingFile.
               ret (case existingFile of None \<Rightarrow> JUndefined | Some f \<Rightarrow> sha f))
             else ret existingSha) (\<lambda>sh.
        seq get_state (\<lambda>s.
        if \<not> truthy sh \<and> provider_is s gitee then createNewFileForGitee P path contentText message
        else
          (let requestData =
                 [(js ''message'', JStr message),
                  (js ''content'', JStr encodedContent),
                  (js ''branch'', JStr (branch_or s
                      (if provider_is s gitee then js ''master'' else js ''main'')))] in
           seq (if truthy sh then seq (lift (js_trim sh)) (\<lambda>t. ret (t \<noteq> [])) else ret False)
             (\<lambda>withSha.
           let requestData = (if withSha then requestData @ [(js ''sha'', sh)] else requestData) in
           seq getRepoPath (\<lambda>rp.
           let endpoint = rp @ js ''/contents/'' @ path in
           seq (apiRequest P endpoint PUT (Some (JObj requestData))) (\<lambda>response.
           if ok (snd response) then put_result response
           else
             seq (response_text response) (\<lambda>errorText.
             if provider_is s gitee \<and> str_includes errorText (js ''sha'') then
               seq (getFileContent P path) (\<lambda>freshFile.
               case freshFile of
                 None \<Rightarrow> ret False
               | Some f \<Rightarrow>
                   seq (apiRequest P endpoint PUT
                          (Some (JObj (set_prop (js ''sha'') (sha f) requestData))))
                     (\<lambda>retryResponse.
                   if ok (snd retryResponse) then put_result retryResponse else ret False))
             else ret False)))))))))
       (\<lambda>e. ret False)"

text \<open>\<^verbatim>\<open>deleteFile\<close>, lines 665 to 686.\<close>

definition deleteFile :: "'w platform \<Rightarrow> jsstring \<Rightarrow> jsstring \<Rightarrow> ('w, bool) comp" where
  "deleteFile P path message =
     try_catch
       (seq (getFileContent P path) (\<lambda>fileInfo.
        case fileInfo of
          None \<Rightarrow> ret True
        | Some f \<Rightarrow>
            seq getRepoPath (\<lambda>rp.
            seq get_state (\<lambda>s.
            seq (apiRequest P (rp @ js ''/contents/'' @ path) DELETE
                   (Some (JObj [(js ''message'', JStr message),
                                (js ''sha'', sha f),
                                (js ''branch'', JStr (branch_or s (js ''main'')))]))) (\<lambda>response.
            ret (ok (snd response)))))))
       (\<lambda>e. ret False)"

section \<open>Synchronisation of the modules\<close>


definition module_setData :: "DataModule \<Rightarrow> jsval \<Rightarrow> ('w, unit) comp" where
  "module_setData m d = (\<lambda>s.
     case setData m d (localStorage s) of (r, st) \<Rightarrow> (r, s\<lparr>localStorage := st\<rparr>))"

text \<open>The envelope \<^verbatim>\<open>{ data, lastSyncTime, hash }\<close> of line 721.\<close>

definition envelope :: "jsval \<Rightarrow> jsstring \<Rightarrow> jsstring \<Rightarrow> jsval" where
  "envelope d nowISO h =
     JObj [(js ''data'', d), (js ''lastSyncTime'', JStr nowISO), (js ''hash'', JStr h)]"


text \<open>\<^verbatim>\<open>syncModuleFromCloud\<close>, lines 752 to 780. The comparison of the two hashes
  only writes a warning to the console.\<close>

definition syncModuleFromCloud :: "'w platform \<Rightarrow> DataModule \<Rightarrow> ('w, bool) comp" where
  "syncModuleFromCloud P m =
     try_catch
       (seq (getFileContent P (SYNC_PREFIX @ filename m)) (\<lambda>fileInfo.
        case fileInfo of
          None \<Rightarrow> ret False
        | Some f \<Rightarrow>
            seq (lift (JSON_parse P (content f))) (\<lambda>syncData.
            seq (lift (get_prop syncData (js ''data''))) (\<lambda>d.
            seq (lift (get_prop syncData (js ''hash''))) (\<lambda>h.
            seq (module_setData m d) (\<lambda>_.
            seq (cache_set (name m) h) (\<lambda>_.
            ret True)))))))
       (\<lambda>e. ret False)"

text \<open>
  \<^verbatim>\<open>checkSyncStatus\<close>, lines 783 to 838. The entry that the catch clause and
  the rejected branch of \<^verbatim>\<open>Promise.allSettled\<close> produce:
\<close>

definition failedStatus :: "DataModule \<Rightarrow> SyncStatus" where
  "failedStatus m =
     \<lparr>status_filename = filename m, localHash = [], cloudHash = JStr [],
      needsSync = False, lastSyncTime = JUndefined\<rparr>"

text \<open>The function that is mapped over the modules.\<close>

definition checkModule :: "'w platform \<Rightarrow> DataModule \<Rightarrow> ('w, SyncStatus) comp" where
  "checkModule P m =
     try_catch
       (seq (getLocalDataHash P m) (\<lambda>lh.
        seq (getFileContent P (SYNC_PREFIX @ filename m)) (\<lambda>fileInfo.
        seq (case fileInfo of
               None \<Rightarrow> ret (JStr [], JUndefined)
             | Some f \<Rightarrow>
                 seq (lift (JSON_parse P (content f))) (\<lambda>syncData.
                 seq (lift (get_prop syncData (js ''hash''))) (\<lambda>h.
                 seq (lift (get_prop syncData (js ''lastSyncTime''))) (\<lambda>t.
                 ret (if truthy h then h else JStr [], t))))) (\<lambda>cloud.
        ret \<lparr>status_filename = filename m, localHash = lh, cloudHash = fst cloud,
             needsSync = (JStr lh \<noteq> fst cloud), lastSyncTime = snd cloud\<rparr>))))
       (\<lambda>e. ret (failedStatus m))"

text \<open>
  The checks of the modules are started together and settle one by one. They
  share no state but the request cache and the bodies of the responses, and
  the entries are collected in the order of the modules; the model runs them
  in that order. A check that is rejected contributes the entry above.
\<close>

fun checkSyncStatus_loop :: "'w platform \<Rightarrow> DataModule list \<Rightarrow> ('w, SyncStatus list) comp" where
  "checkSyncStatus_loop P [] = ret []"
| "checkSyncStatus_loop P (m # ms) =
     seq (try_catch (checkModule P m) (\<lambda>e. ret (failedStatus m))) (\<lambda>entry.
     seq (checkSyncStatus_loop P ms) (\<lambda>statusList.
     ret (entry # statusList)))"

definition checkSyncStatus :: "'w platform \<Rightarrow> ('w, SyncStatus list) comp" where
  "checkSyncStatus P = seq get_state (\<lambda>s. checkSyncStatus_loop P (dataModules s))"




section \<open>The other public operations\<close>

text \<open>
  The texts that \<^verbatim>\<open>testConnection\<close> returns, one constructor for each template
  of the source, in the order of the source, with the value that the template
  is filled with: the name of the repository, the response whose status and
  status text are shown, the exception whose message is shown.
\<close>

datatype message =
    ConfigureFirst
  | Connected jsval
  | NoWriteAccess
  | TokenRejected
  | RepositoryNotFound
  | ConnectionFailed netresponse
  | ConnectionError exn






















section \<open>A reference environment\<close>

text \<open>
  The statements below hold for every platform and every remote side. For
  concrete runs there is one remote side: a repository that keeps, for each
  path, a content and a revision token, behind a network that can lose a
  request before it arrives (\<open>faults\<close> says for each coming request whether it
  is lost).
\<close>

record repo =
  files :: "jsstring \<rightharpoonup> (jsval \<times> jsstring)"
  revision :: nat
  faults :: "bool list"

definition revToken :: "nat \<Rightarrow> jsstring" where
  "revToken n = js ''rev'' @ replicate n (ch CHR ''+'')"

text \<open>The path of a request: its URL up to the question mark.\<close>

definition fileKey :: "jsstring \<Rightarrow> jsstring" where
  "fileKey u = takeWhile (\<lambda>c. c \<noteq> 63) u"

definition answer :: "bool \<Rightarrow> nat \<Rightarrow> jsval \<Rightarrow> jsstring \<Rightarrow> netresponse" where
  "answer k st v t = \<lparr>ok = k, status = st, json_body = Some v, text_body = t\<rparr>"

definition notFound :: netresponse where
  "notFound = answer False 404 (JObj [(js ''message'', JStr (js ''Not Found''))]) (js ''Not Found'')"

definition conflict :: netresponse where
  "conflict = answer False 409 (JObj [(js ''message'', JStr (js ''sha does not match''))])
                (js ''sha does not match'')"

definition written :: "nat \<Rightarrow> nat \<Rightarrow> netresponse" where
  "written st n = answer True st (JObj [(js ''content'', JObj [(js ''sha'', JStr (revToken n))])]) []"

definition body_member :: "request \<Rightarrow> jsstring \<Rightarrow> jsval" where
  "body_member req k = (case body req of None \<Rightarrow> JUndefined | Some b \<Rightarrow> optprop b k)"

definition store :: "request \<Rightarrow> repo \<Rightarrow> repo" where
  "store req w =
     w\<lparr>files := (files w)(fileKey (url req) \<mapsto> (body_member req (js ''content''), revToken (revision w))),
       revision := Suc (revision w)\<rparr>"

text \<open>
  The repository answers a read with the content and the token of the file;
  it creates a file on a POST, or on a PUT that carries no token; it updates
  a file on a PUT that carries the token of the file; it deletes a file on a
  DELETE that carries the token of the file.
\<close>

definition repo_apply :: "request \<Rightarrow> repo \<Rightarrow> netresponse \<times> repo" where
  "repo_apply req w =
     (case (req_method req, files w (fileKey (url req))) of
        (GET, None) \<Rightarrow> (notFound, w)
      | (GET, Some (c, t)) \<Rightarrow>
          (answer True 200 (JObj [(js ''content'', c), (js ''sha'', JStr t)]) [], w)
      | (POST, None) \<Rightarrow> (written 201 (revision w), store req w)
      | (POST, Some f) \<Rightarrow> (answer False 400 (JObj []) (js ''file exists''), w)
      | (PUT, None) \<Rightarrow>
          (if body_member req (js ''sha'') = JUndefined
           then (written 201 (revision w), store req w)
           else (notFound, w))
      | (PUT, Some (c, t)) \<Rightarrow>
          (if body_member req (js ''sha'') = JStr t
           then (written 200 (revision w), store req w)
           else (conflict, w))
      | (DELETE, None) \<Rightarrow> (notFound, w)
      | (DELETE, Some (c, t)) \<Rightarrow>
          (if body_member req (js ''sha'') = JStr t
           then (answer True 200 (JObj [(js ''content'', JNull)]) [],
                 w\<lparr>files := (files w)(fileKey (url req) := None)\<rparr>)
           else (conflict, w)))"

definition repo_fetch :: "request \<Rightarrow> repo \<Rightarrow> (exn + netresponse) \<times> repo" where
  "repo_fetch req w =
     (case faults w of
        True # fs \<Rightarrow> (Inl NetworkError, w\<lparr>faults := fs\<rparr>)
      | False # fs \<Rightarrow> (case repo_apply req (w\<lparr>faults := fs\<rparr>) of (r, w') \<Rightarrow> (Inr r, w'))
      | [] \<Rightarrow> (case repo_apply req w of (r, w') \<Rightarrow> (Inr r, w')))"

text \<open>
  The reference platform. Its JSON functions are a table of values and their
  texts, its digest is the sum of the code units, and its cipher knows two
  texts, the one of a configuration and the one of a number; the client
  treats all of them as opaque.
\<close>

definition sample_text :: jsstring where
  "sample_text = js ''caf'' @ [0xE9, 0x20, 0x20AC, 0x20, 0xD83D, 0xDE00]"

definition sample_data :: jsval where
  "sample_data = JObj [(js ''note'', JStr sample_text)]"

definition sample_data_text :: jsstring where
  "sample_data_text = js ''{\<newline>  \"note\": \"'' @ sample_text @ js ''\"\<newline>}''"

definition ref_MD5 :: "jsstring \<Rightarrow> 128 word" where
  "ref_MD5 t = of_nat (sum_list (map unat t))"

definition sample_time :: jsstring where
  "sample_time = js ''2025-01-01T00:00:00.000Z''"

definition sample_envelope :: jsval where
  "sample_envelope = envelope sample_data sample_time (toHex (ref_MD5 sample_data_text))"

definition sample_envelope_text :: jsstring where
  "sample_envelope_text =
     js ''{\<newline>  \"data\": {\<newline>    \"note\": \"'' @ sample_text @
     js ''\"\<newline>  },\<newline>  \"lastSyncTime\": \"'' @ sample_time @
     js ''\",\<newline>  \"hash\": \"'' @ toHex (ref_MD5 sample_data_text) @ js ''\"\<newline>}''"

definition json_table :: "(jsval \<times> jsstring) list" where
  "json_table =
     [(JArr [], js ''[]''),
      (sample_data, sample_data_text),
      (sample_envelope, sample_envelope_text)]"

definition ref_stringify :: "jsval \<Rightarrow> jsstring" where
  "ref_stringify v = (case map_of json_table v of None \<Rightarrow> js ''null'' | Some t \<Rightarrow> t)"

definition ref_parse :: "jsstring \<Rightarrow> exn + jsval" where
  "ref_parse t =
     (case map_of (map (\<lambda>p. (snd p, fst p)) json_table) t of
        None \<Rightarrow> Inl SyntaxError
      | Some v \<Rightarrow> Inr v)"

definition sample_config :: GitConfig where
  "sample_config =
     \<lparr>provider = gitee, token = js ''t0ken'', owner = js ''alice'', repo = js ''notes'',
      branch = None\<rparr>"

definition sample_blob :: jsstring where
  "sample_blob = js ''U2FsdGVkX18xMjM0NTY3OA==''"

definition number_blob :: jsstring where
  "number_blob = js ''U2FsdGVkX185OTk5OTk5OQ==''"

definition ref_platform :: "repo platform" where
  "ref_platform =
     \<lparr>fetch = repo_fetch,
      JSON_parse = ref_parse,
      JSON_stringify = ref_stringify,
      MD5 = ref_MD5,
      AES_encrypt = (\<lambda>c. sample_blob),
      AES_decrypt = (\<lambda>b. if b = sample_blob then Inr (AConfig sample_config)
                         else if b = number_blob then Inr NotAnObject
                         else Inl SyntaxError)\<rparr>"

text \<open>A module in the manner of the built-in module \<^verbatim>\<open>calendarEvents\<close>: it reads
  and writes one key of the local storage.\<close>

definition sample_module :: DataModule where
  "sample_module =
     \<lparr>name = js ''notes'', localStorageKey = js ''notes-data'', filename = js ''notes.json'',
      getData = (\<lambda>st. case st (js ''notes-data'') of None \<Rightarrow> Inr (JArr []) | Some t \<Rightarrow> ref_parse t),
      setData = (\<lambda>d st. (Inr (), st(js ''notes-data'' \<mapsto> ref_stringify d)))\<rparr>"

definition empty_repo :: repo where
  "empty_repo = \<lparr>files = Map.empty, revision = 0, faults = []\<rparr>"

text \<open>A client that has just been configured, over a given remote side.\<close>

definition fresh_client :: "GitConfig \<Rightarrow> storage \<Rightarrow> 'w \<Rightarrow> 'w client" where
  "fresh_client c st w =
     \<lparr>config = Some c, dataModules = [sample_module], localHashCache = Map.empty,
      requestCache = Map.empty, bodyUsed = {}, nextResponse = 0, localStorage = st,
      remote = w\<rparr>"

section \<open>Derived notions\<close>

definition file_of :: "jsval \<Rightarrow> FileContent option" where
  "file_of data =
     (case get_prop data (js ''content'') of
        Inl e \<Rightarrow> None
      | Inr c \<Rightarrow>
          if truthy c then
            (case js_replace_space c of
               Inl e \<Rightarrow> None
             | Inr stripped \<Rightarrow>
                 (case decodeContent stripped of
                    Inl e \<Rightarrow> None
                  | Inr decoded \<Rightarrow>
                      (case get_prop data (js ''sha'') of
                         Inl e \<Rightarrow> None
                       | Inr sh \<Rightarrow> Some \<lparr>content = decoded, sha = sh\<rparr>)))
          else None)"

definition contentsEndpoint :: "GitConfig \<Rightarrow> jsstring \<Rightarrow> jsstring" where
  "contentsEndpoint c path = repoPath c @ js ''/contents/'' @ path"

definition readEndpoint :: "'w client \<Rightarrow> GitConfig \<Rightarrow> jsstring \<Rightarrow> jsstring" where
  "readEndpoint s c path = contentsEndpoint c path @ js ''?ref='' @ branch_or s (js ''main'')"

definition sample_path :: jsstring where
  "sample_path = SYNC_PREFIX @ filename sample_module"

definition sample_url :: jsstring where
  "sample_url = apiBase sample_config @ js ''/'' @ contentsEndpoint sample_config sample_path"

definition repo_with :: "jsval \<Rightarrow> bool list \<Rightarrow> repo" where
  "repo_with c fs = \<lparr>files = [sample_url \<mapsto> (c, revToken 0)], revision = 1, faults = fs\<rparr>"

definition absentStatus :: "DataModule \<Rightarrow> jsstring \<Rightarrow> SyncStatus" where
  "absentStatus m h =
     \<lparr>status_filename = filename m, localHash = h, cloudHash = JStr [],
      needsSync = True, lastSyncTime = JUndefined\<rparr>"

definition lossy_repo :: repo where
  "lossy_repo = \<lparr>files = Map.empty, revision = 0, faults = [True]\<rparr>"

definition oops_repo :: repo where
  "oops_repo = repo_with (JStr (js ''b29wcw=='')) []"

definition branchOf :: "GitConfig \<Rightarrow> jsstring \<Rightarrow> jsstring" where
  "branchOf c d = (case branch c of None \<Rightarrow> d | Some b \<Rightarrow> if b = [] then d else b)"

definition send ::
  "'w platform \<Rightarrow> GitConfig \<Rightarrow> http_method \<Rightarrow> jsstring \<Rightarrow> jsval option \<Rightarrow> ('w, response) comp" where
  "send P c m endpoint b = (\<lambda>s.
     case fetch P \<lparr>req_method = m, url = apiBase c @ js ''/'' @ endpoint,
                    authorization = js ''token '' @ token c, body = b\<rparr> (remote s) of
       (Inl e, w) \<Rightarrow> (Inl e, s\<lparr>remote := w\<rparr>)
     | (Inr r, w) \<Rightarrow> (Inr (nextResponse s, r), s\<lparr>remote := w, nextResponse := Suc (nextResponse s)\<rparr>))"

definition postData :: "GitConfig \<Rightarrow> jsstring \<Rightarrow> jsstring \<Rightarrow> jsval" where
  "postData c message encodedContent =
     JObj [(js ''message'', JStr message), (js ''content'', JStr encodedContent),
           (js ''branch'', JStr (branchOf c (js ''master'')))]"

definition placeholderData :: "GitConfig \<Rightarrow> jsstring \<Rightarrow> jsval" where
  "placeholderData c path =
     JObj [(js ''message'', JStr ([0x521D, 0x59CB, 0x5316, 0x6587, 0x4EF6] @ js '': '' @ path)),
           (js ''content'', JStr []),
           (js ''branch'', JStr (branchOf c (js ''master'')))]"

definition updateData :: "GitConfig \<Rightarrow> jsstring \<Rightarrow> jsstring \<Rightarrow> jsval \<Rightarrow> jsval" where
  "updateData c message encodedContent sh =
     JObj [(js ''message'', JStr message), (js ''content'', JStr encodedContent),
           (js ''sha'', sh), (js ''branch'', JStr (branchOf c (js ''master'')))]"

definition emptyShaData :: "GitConfig \<Rightarrow> jsstring \<Rightarrow> jsstring \<Rightarrow> jsval" where
  "emptyShaData c message encodedContent =
     JObj [(js ''message'', JStr message), (js ''content'', JStr encodedContent),
           (js ''branch'', JStr (branchOf c (js ''master''))), (js ''sha'', JStr [])]"

definition flaky_repo :: "bool list \<Rightarrow> repo" where
  "flaky_repo fs = \<lparr>files = Map.empty, revision = 0, faults = fs\<rparr>"

definition sample_request :: "http_method \<Rightarrow> jsval option \<Rightarrow> request" where
  "sample_request m b =
     \<lparr>req_method = m, url = sample_url, authorization = js ''token t0ken'', body = b\<rparr>"

definition usableSha :: "jsval \<Rightarrow> bool" where
  "usableSha sh = (case sh of JStr t \<Rightarrow> trim t \<noteq> [] | _ \<Rightarrow> False)"

definition putFields :: "GitConfig \<Rightarrow> jsstring \<Rightarrow> jsstring \<Rightarrow> jsval \<Rightarrow> (jsstring \<times> jsval) list" where
  "putFields c message encodedContent sh =
     [(js ''message'', JStr message), (js ''content'', JStr encodedContent),
      (js ''branch'', JStr (branchOf c (if provider c = gitee then js ''master'' else js ''main'')))]
     @ (if usableSha sh then [(js ''sha'', sh)] else [])"

definition put_outcome :: "response \<Rightarrow> ('w, bool) comp" where
  "put_outcome r = try_catch (put_result r) (\<lambda>e. ret False)"

definition run :: "('w, 'a) comp \<Rightarrow> 'w client \<Rightarrow> (exn + 'a) \<times> 'w client" where
  "run m s = m s"

definition putWithRetry ::
  "'w platform \<Rightarrow> GitConfig \<Rightarrow> jsstring \<Rightarrow> jsstring \<Rightarrow> jsstring \<Rightarrow> jsval \<Rightarrow> ('w, bool) comp" where
  "putWithRetry P c path message enc sh = (\<lambda>s.
     case apiRequest P (contentsEndpoint c path) PUT (Some (JObj (putFields c message enc sh))) s of
       (Inl e, s1) \<Rightarrow> (Inr False, s1)
     | (Inr r, s1) \<Rightarrow>
         if ok (snd r) then put_outcome r s1
         else
           (case response_text r s1 of
              (Inl e, s2) \<Rightarrow> (Inr False, s2)
            | (Inr errorText, s2) \<Rightarrow>
                if provider c = gitee \<and> str_includes errorText (js ''sha'') then
                  (case getFileContent P path s2 of
                     (Inl e, s3) \<Rightarrow> (Inr False, s3)
                   | (Inr freshFile, s3) \<Rightarrow>
                       (case freshFile of
                          None \<Rightarrow> (Inr False, s3)
                        | Some f \<Rightarrow>
                           (case apiRequest P (contentsEndpoint c path) PUT
                               (Some (JObj (set_prop (js ''sha'') (sha f) (putFields c message enc sh)))) s3 of
                              (Inl e, s4) \<Rightarrow> (Inr False, s4)
                            | (Inr r2, s4) \<Rightarrow>
                                if ok (snd r2) then put_outcome r2 s4 else (Inr False, s4))))
                else (Inr False, s2)))"



definition client_at ::
  "storage \<Rightarrow> (jsstring \<rightharpoonup> jsval) \<Rightarrow> repo \<Rightarrow> (jsstring \<rightharpoonup> (exn + response)) \<Rightarrow> nat set \<Rightarrow> nat
   \<Rightarrow> repo client" where
  "client_at st hc w cache used n =
     \<lparr>config = Some sample_config, dataModules = [sample_module], localHashCache = hc,
      requestCache = cache, bodyUsed = used, nextResponse = n, localStorage = st, remote = w\<rparr>"

definition READ_KEY :: jsstring where
  "READ_KEY = js ''GET-'' @ sample_url @ js ''?ref=main''"

definition read_request :: request where
  "read_request = \<lparr>req_method = GET, url = sample_url @ js ''?ref=main'',
                    authorization = js ''token t0ken'', body = None\<rparr>"


section \<open>Basic facts\<close>

lemma hex_digits_numeral:
  "hex_digits (numeral k) v = hex_digits (pred_numeral k) (v div 16) @ [hexdig_lower (v mod 16)]"
  using hex_digits.simps(2)[of "pred_numeral k" v] by (simp only: numeral_eq_Suc[symmetric])

lemma length_hex_digits: "length (hex_digits n v) = n"
  by (induction n arbitrary: v) simp_all

lemma toHex_nonempty: "toHex w \<noteq> []"
proof -
  have "length (toHex w) = 32" by (simp add: toHex_def length_hex_digits)
  then show ?thesis by auto
qed

lemma truthy_hash: "truthy (JStr (generateDataHash P d))"
  by (simp add: generateDataHash_def toHex_nonempty)

subsection \<open>Values of the reference environment\<close>

lemma sample_getData_empty: "getData sample_module Map.empty = Inr (JArr [])"
  by (simp add: sample_module_def)

lemma sample_getData_text:
  "getData sample_module [js ''notes-data'' \<mapsto> sample_data_text] = Inr sample_data"
  by (simp add: sample_module_def ref_parse_def json_table_def sample_data_text_def
        sample_text_def sample_envelope_text_def js_def ch_def)

lemma sample_hash_empty:
  "generateDataHash ref_platform (JArr []) = js ''000000000000000000000000000000b8''"
  by (simp add: generateDataHash_def ref_platform_def ref_stringify_def json_table_def
        ref_MD5_def toHex_def hex_digits_numeral hexdig_lower_def js_def ch_def)

lemma sample_hash_data:
  "generateDataHash ref_platform sample_data = js ''0000000000000000000000000001dd20''"
  by (simp add: generateDataHash_def ref_platform_def ref_stringify_def json_table_def
        ref_MD5_def toHex_def hex_digits_numeral hexdig_lower_def sample_data_text_def
        sample_data_def sample_text_def js_def ch_def sample_envelope_def envelope_def)

section \<open>Configuration: the branch is never empty\<close>

lemma defaultBranch_nonempty:
  "branch (defaultBranch c) \<noteq> None \<and> branch (defaultBranch c) \<noteq> Some []"
  by (cases "provider c") (auto simp: defaultBranch_def js_def)

lemma defaultBranch_omitted:
  "branch c = None \<or> branch c = Some [] \<Longrightarrow>
   branch (defaultBranch c) = Some (if provider c = gitee then js ''master'' else js ''main'')"
  by (auto simp: defaultBranch_def)

text \<open>
  Claim C8. After \<^verbatim>\<open>saveConfig\<close> the active configuration, which is also the
  one that was encrypted and stored, has a branch that is not empty; so has
  the active configuration after every \<^verbatim>\<open>loadConfig\<close> that returns a
  configuration. A branch that the caller, or the stored configuration, left
  out is \<^verbatim>\<open>main\<close> for GitHub and \<^verbatim>\<open>master\<close> for Gitee.
\<close>

theorem config_branch_never_empty:
  fixes P :: "'w platform" and s :: "'w client"
  shows "(\<exists>c'. saveConfig P c s =
              (Inr (), s\<lparr>localStorage := (localStorage s)(STORAGE_KEY \<mapsto> encryptConfig P c'),
                          config := Some c'\<rparr>) \<and>
            branch c' \<noteq> None \<and> branch c' \<noteq> Some [] \<and>
            (branch c = None \<or> branch c = Some [] \<longrightarrow>
               (provider c = github \<longrightarrow> branch c' = Some (js ''main'')) \<and>
               (provider c = gitee \<longrightarrow> branch c' = Some (js ''master''))))
       \<and> (\<forall>c'. fst (loadConfig P s) = Inr (Some c') \<longrightarrow>
            config (snd (loadConfig P s)) = Some c' \<and>
            branch c' \<noteq> None \<and> branch c' \<noteq> Some [] \<and>
            (\<forall>c0. decryptConfig P (the (localStorage s STORAGE_KEY)) = AConfig c0 \<and>
                  (branch c0 = None \<or> branch c0 = Some []) \<longrightarrow>
               (provider c0 = github \<longrightarrow> branch c' = Some (js ''main'')) \<and>
               (provider c0 = gitee \<longrightarrow> branch c' = Some (js ''master''))))"
proof (intro conjI allI impI)
  show "\<exists>c'. saveConfig P c s =
              (Inr (), s\<lparr>localStorage := (localStorage s)(STORAGE_KEY \<mapsto> encryptConfig P c'),
                          config := Some c'\<rparr>) \<and>
            branch c' \<noteq> None \<and> branch c' \<noteq> Some [] \<and>
            (branch c = None \<or> branch c = Some [] \<longrightarrow>
               (provider c = github \<longrightarrow> branch c' = Some (js ''main'')) \<and>
               (provider c = gitee \<longrightarrow> branch c' = Some (js ''master'')))"
    using defaultBranch_nonempty[of c] defaultBranch_omitted[of c]
    by (intro exI[of _ "defaultBranch c"]) (auto simp: saveConfig_def Let_def)
next
  fix c' assume ld: "fst (loadConfig P s) = Inr (Some c')"
  then obtain e c0 where e: "localStorage s STORAGE_KEY = Some e" "e \<noteq> []"
      and c0: "decryptConfig P e = AConfig c0" and c': "c' = defaultBranch c0"
    by (auto simp: loadConfig_def split: option.splits if_splits parsed_config.splits)
  show "config (snd (loadConfig P s)) = Some c'"
    using e c0 c' by (simp add: loadConfig_def)
  show "branch c' \<noteq> None" "branch c' \<noteq> Some []"
    using c' defaultBranch_nonempty[of c0] by simp_all
  fix c1 assume h: "decryptConfig P (the (localStorage s STORAGE_KEY)) = AConfig c1 \<and>
                  (branch c1 = None \<or> branch c1 = Some [])"
  then have "c1 = c0" using e c0 by simp
  then show "provider c1 = github \<Longrightarrow> branch c' = Some (js ''main'')"
    and "provider c1 = gitee \<Longrightarrow> branch c' = Some (js ''master'')"
    using h c' defaultBranch_omitted[of c0] by auto
qed

theorem config_branch_never_empty_witness:
  "branch sample_config = None \<and> provider sample_config = gitee \<and>
   (\<exists>c'. config (snd (saveConfig ref_platform sample_config
                          (fresh_client sample_config Map.empty empty_repo))) = Some c' \<and>
         branch c' = Some (js ''master'')) \<and>
   (\<exists>c'. fst (loadConfig ref_platform
                 (fresh_client sample_config [STORAGE_KEY \<mapsto> sample_blob] empty_repo)) = Inr (Some c') \<and>
         branch c' = Some (js ''master''))"
  using config_branch_never_empty[of ref_platform sample_config
          "fresh_client sample_config Map.empty empty_repo"]
        config_branch_never_empty[of ref_platform sample_config
          "fresh_client sample_config [STORAGE_KEY \<mapsto> sample_blob] empty_repo"]
  by (auto simp: sample_config_def loadConfig_def decryptConfig_def ref_platform_def fresh_client_def
       sample_blob_def js_def defaultBranch_def)

section \<open>Change detection\<close>

lemma hasDataChanged_eval:
  assumes "getData m (localStorage s) = Inr d"
  shows "hasDataChanged P m s =
     (if \<not> truthy (cache_get s (name m)) then
        (Inr False, s\<lparr>localHashCache := (localHashCache s)(name m \<mapsto> JStr (generateDataHash P d))\<rparr>)
      else if cache_get s (name m) \<noteq> JStr (generateDataHash P d) then
        (Inr True, s\<lparr>localHashCache := (localHashCache s)(name m \<mapsto> JStr (generateDataHash P d))\<rparr>)
      else (Inr False, s))"
  using assms
  by (simp add: hasDataChanged_def try_catch_def seq_def getLocalDataHash_def get_state_def
        cache_set_def ret_def Let_def)

lemma syncModuleFromCloud_stores_hash:
  assumes "getFileContent P (SYNC_PREFIX @ filename m) s = (Inr (Some f), s1)"
    and "JSON_parse P (content f) = Inr syncData"
    and "get_prop syncData (js ''data'') = Inr d"
    and "get_prop syncData (js ''hash'') = Inr h"
    and "setData m d (localStorage s1) = (Inr (), st)"
  shows "syncModuleFromCloud P m s =
     (Inr True, s1\<lparr>localStorage := st, localHashCache := (localHashCache s1)(name m \<mapsto> h)\<rparr>)"
  using assms
  by (simp add: syncModuleFromCloud_def try_catch_def seq_def lift_def ret_def
        module_setData_def cache_set_def)

text \<open>
  Claim C2, as amended. While the module's data can be read, \<^verbatim>\<open>hasDataChanged\<close>
  seeds the baseline with the current hash and answers false when the stored
  baseline is falsy, which it is when there is none and when it is the empty
  string; it stores the current hash and answers true when the baseline is
  truthy and another value than the current hash; it answers false and leaves
  the state alone when the baseline is the current hash; and the second of
  two observations in a row answers false.
\<close>

theorem hasDataChanged_policy:
  fixes P :: "'w platform" and s :: "'w client"
  assumes "getData m (localStorage s) = Inr d"
  defines "h \<equiv> generateDataHash P d"
  shows "(\<not> truthy (cache_get s (name m)) \<longrightarrow>
            hasDataChanged P m s =
              (Inr False, s\<lparr>localHashCache := (localHashCache s)(name m \<mapsto> JStr h)\<rparr>))
       \<and> (truthy (cache_get s (name m)) \<and> cache_get s (name m) \<noteq> JStr h \<longrightarrow>
            hasDataChanged P m s =
              (Inr True, s\<lparr>localHashCache := (localHashCache s)(name m \<mapsto> JStr h)\<rparr>))
       \<and> (cache_get s (name m) = JStr h \<longrightarrow> hasDataChanged P m s = (Inr False, s))
       \<and> fst (hasDataChanged P m (snd (hasDataChanged P m s))) = Inr False"
proof (intro conjI impI)
  assume "\<not> truthy (cache_get s (name m))"
  then show "hasDataChanged P m s =
      (Inr False, s\<lparr>localHashCache := (localHashCache s)(name m \<mapsto> JStr h)\<rparr>)"
    using assms(1) by (simp add: hasDataChanged_eval h_def)
next
  assume "truthy (cache_get s (name m)) \<and> cache_get s (name m) \<noteq> JStr h"
  then show "hasDataChanged P m s =
      (Inr True, s\<lparr>localHashCache := (localHashCache s)(name m \<mapsto> JStr h)\<rparr>)"
    using assms(1) by (simp add: hasDataChanged_eval h_def)
next
  assume "cache_get s (name m) = JStr h"
  then show "hasDataChanged P m s = (Inr False, s)"
    using assms(1) truthy_hash[of P d] by (simp add: hasDataChanged_eval h_def)
next
  let ?s1 = "snd (hasDataChanged P m s)"
  have st: "localStorage ?s1 = localStorage s"
    using assms(1) by (simp add: hasDataChanged_eval)
  have c: "cache_get ?s1 (name m) = JStr h"
    using assms(1) truthy_hash[of P d]
    by (auto simp: hasDataChanged_eval cache_get_def h_def)
  have "getData m (localStorage ?s1) = Inr d" using st assms(1) by simp
  from hasDataChanged_eval[OF this, of P] c truthy_hash[of P d]
  show "fst (hasDataChanged P m ?s1) = Inr False" by (simp add: h_def)
qed

text \<open>
  The claim as it stands fails on a baseline that is the empty string, which
  \<^verbatim>\<open>syncModuleFromCloud\<close> stores when the envelope it has pulled carries the
  hash \<^verbatim>\<open>""\<close>: the hash of the data differs from the baseline, and the
  observation answers false and seeds the baseline.
\<close>

theorem hasDataChanged_empty_baseline_counterexample:
  "getData sample_module [js ''notes-data'' \<mapsto> sample_data_text] = Inr sample_data \<and>
   generateDataHash ref_platform sample_data \<noteq> [] \<and>
   hasDataChanged ref_platform sample_module
     ((fresh_client sample_config [js ''notes-data'' \<mapsto> sample_data_text] empty_repo)
        \<lparr>localHashCache := [js ''notes'' \<mapsto> JStr []]\<rparr>) =
     (Inr False,
      (fresh_client sample_config [js ''notes-data'' \<mapsto> sample_data_text] empty_repo)
        \<lparr>localHashCache := [js ''notes'' \<mapsto> JStr (generateDataHash ref_platform sample_data)]\<rparr>)"
proof -
  let ?s = "(fresh_client sample_config [js ''notes-data'' \<mapsto> sample_data_text] empty_repo)
        \<lparr>localHashCache := [js ''notes'' \<mapsto> JStr []]\<rparr>"
  have g: "getData sample_module (localStorage ?s) = Inr sample_data"
    by (simp add: fresh_client_def sample_getData_text)
  have n: "name sample_module = js ''notes''" by (simp add: sample_module_def)
  have "hasDataChanged ref_platform sample_module ?s =
     (Inr False, ?s\<lparr>localHashCache := (localHashCache ?s)
        (js ''notes'' \<mapsto> JStr (generateDataHash ref_platform sample_data))\<rparr>)"
    by (simp add: hasDataChanged_eval[OF g] cache_get_def n)
  then show ?thesis
    using sample_getData_text truthy_hash[of ref_platform sample_data]
    by (simp add: fresh_client_def)
qed

theorem hasDataChanged_policy_witness:
  "getData sample_module Map.empty = Inr (JArr []) \<and>
   fst (hasDataChanged ref_platform sample_module
          (fresh_client sample_config Map.empty empty_repo)) = Inr False \<and>
   getData sample_module [js ''notes-data'' \<mapsto> sample_data_text] = Inr sample_data \<and>
   fst (hasDataChanged ref_platform sample_module
          ((fresh_client sample_config [js ''notes-data'' \<mapsto> sample_data_text] empty_repo)
             \<lparr>localHashCache := [js ''notes'' \<mapsto> JStr (generateDataHash ref_platform (JArr []))]\<rparr>))
     = Inr True \<and>
   fst (hasDataChanged ref_platform sample_module
          ((fresh_client sample_config [js ''notes-data'' \<mapsto> sample_data_text] empty_repo)
             \<lparr>localHashCache := [js ''notes'' \<mapsto> JStr (generateDataHash ref_platform sample_data)]\<rparr>))
     = Inr False"
proof -
  let ?s0 = "fresh_client sample_config Map.empty empty_repo"
  let ?s1 = "(fresh_client sample_config [js ''notes-data'' \<mapsto> sample_data_text] empty_repo)
             \<lparr>localHashCache := [js ''notes'' \<mapsto> JStr (generateDataHash ref_platform (JArr []))]\<rparr>"
  let ?s2 = "(fresh_client sample_config [js ''notes-data'' \<mapsto> sample_data_text] empty_repo)
             \<lparr>localHashCache := [js ''notes'' \<mapsto> JStr (generateDataHash ref_platform sample_data)]\<rparr>"
  have g0: "getData sample_module (localStorage ?s0) = Inr (JArr [])"
    by (simp add: fresh_client_def sample_getData_empty)
  have g1: "getData sample_module (localStorage ?s1) = Inr sample_data"
    by (simp add: fresh_client_def sample_getData_text)
  have g2: "getData sample_module (localStorage ?s2) = Inr sample_data"
    by (simp add: fresh_client_def sample_getData_text)
  have n: "name sample_module = js ''notes''" by (simp add: sample_module_def)
  have "fst (hasDataChanged ref_platform sample_module ?s0) = Inr False"
    using hasDataChanged_policy[OF g0, of ref_platform]
    by (simp add: fresh_client_def cache_get_def)
  moreover have "fst (hasDataChanged ref_platform sample_module ?s1) = Inr True"
    using hasDataChanged_policy[OF g1, of ref_platform]
    by (simp add: fresh_client_def cache_get_def n sample_hash_empty sample_hash_data js_def ch_def)
  moreover have "fst (hasDataChanged ref_platform sample_module ?s2) = Inr False"
    using hasDataChanged_policy[OF g2, of ref_platform]
    by (simp add: fresh_client_def cache_get_def n)
  ultimately show ?thesis using sample_getData_empty sample_getData_text by simp
qed

section \<open>Reading a file\<close>

lemmas comp_defs = seq_def ret_def lift_def throw_def try_catch_def get_state_def

lemma apiRequest_config: "config s = Some c \<Longrightarrow> config (snd (apiRequest P e m b s)) = Some c"
  by (auto simp: apiRequest_def settle_def Let_def split: option.splits prod.splits sum.splits)

lemma getFileContent_unconfigured:
  "config s = None \<Longrightarrow> getFileContent P path s = (Inr None, s)"
  by (simp add: getFileContent_def comp_defs getRepoPath_def)

lemma getFileContent_eval:
  assumes "config s = Some c"
  shows "getFileContent P path s =
     (case apiRequest P (readEndpoint s c path) GET None s of
        (Inl e, s1) \<Rightarrow> (Inr None, s1)
      | (Inr r, s1) \<Rightarrow>
          if ok (snd r) then
            (case response_json r s1 of
               (Inl e, s2) \<Rightarrow> (Inr None, s2)
             | (Inr data, s2) \<Rightarrow> (Inr (file_of data), s2))
          else (Inr None, s1))"
  using assms
  by (simp add: getFileContent_def comp_defs getRepoPath_def readEndpoint_def contentsEndpoint_def
        file_of_def split: prod.splits sum.splits)

lemma response_json_fresh:
  "fst r \<notin> bodyUsed s \<Longrightarrow> json_body (snd r) = Some v \<Longrightarrow>
   response_json r s = (Inr v, s\<lparr>bodyUsed := insert (fst r) (bodyUsed s)\<rparr>)"
  by (simp add: response_json_def)

text \<open>
  Claim C10. When the read of a file is answered with success and the record
  of the answer has no content member, or an empty one, \<^verbatim>\<open>getFileContent\<close>
  returns \<^verbatim>\<open>null\<close>, as it does for a file that is not there; and \<^verbatim>\<open>deleteFile\<close>
  reports success in the state that the read left behind: it has made no
  further request, so the file stays.
\<close>

theorem empty_content_is_absent:
  assumes "config s = Some c"
    and "apiRequest P (readEndpoint s c path) GET None s = (Inr r, s1)"
    and "ok (snd r)" and "fst r \<notin> bodyUsed s1"
    and "json_body (snd r) = Some (JObj fs)"
    and "map_of fs (js ''content'') = None \<or> map_of fs (js ''content'') = Some (JStr [])"
  shows "getFileContent P path s = (Inr None, s1\<lparr>bodyUsed := insert (fst r) (bodyUsed s1)\<rparr>) \<and>
         deleteFile P path message s = (Inr True, s1\<lparr>bodyUsed := insert (fst r) (bodyUsed s1)\<rparr>)"
proof -
  have f: "file_of (JObj fs) = None"
    using assms(6) by (auto simp: file_of_def)
  have g: "getFileContent P path s = (Inr None, s1\<lparr>bodyUsed := insert (fst r) (bodyUsed s1)\<rparr>)"
    using assms f by (simp add: getFileContent_eval response_json_fresh)
  then show ?thesis
    by (simp add: deleteFile_def comp_defs)
qed

lemma try_catch_total:
  "\<exists>v. fst (try_catch m (\<lambda>e. ret x) s) = Inr v"
  by (cases "m s") (auto simp: try_catch_def ret_def split: sum.splits)

subsection \<open>String literals and the reference repository\<close>

lemma of_char_bound: "(of_char c :: nat) < 256"
proof -
  have "(of_char c :: nat) mod 256 = of_char c" by simp
  then show ?thesis by (metis mod_less_divisor zero_less_numeral)
qed

lemma unat_ch: "unat (ch c) = of_char c"
proof -
  have "(of_char c :: nat) < 65536" using of_char_bound[of c] by linarith
  then show ?thesis by (simp add: ch_def unat_of_nat)
qed

lemma ch_inject: "ch a = ch b \<longleftrightarrow> a = b"
proof
  assume "ch a = ch b"
  then have "unat (ch a) = unat (ch b)" by simp
  then show "a = b" by (simp add: unat_ch)
qed simp

lemma js_inject: "js a = js b \<longleftrightarrow> a = b"
proof -
  have "inj ch" by (simp add: inj_on_def ch_inject)
  then show ?thesis by (simp add: js_def inj_map_eq_map)
qed

lemma js_append: "js a @ js b = js (a @ b)"
  by (simp add: js_def)

lemma js_append2: "js a @ js b @ r = js (a @ b) @ r"
  by (simp add: js_def)

lemma js_Nil: "js [] = []"
  by (simp add: js_def)

lemma js_Cons: "js (c # cs) = ch c # js cs"
  by (simp add: js_def)

lemma js_eq_Nil: "js a = [] \<longleftrightarrow> a = []"
  by (simp add: js_def)

lemmas js_simps = js_inject js_append js_append2 js_eq_Nil

lemma sample_url_eval:
  "sample_url = js ''https://gitee.com/api/v5/repos/alice/notes/contents/sync-notes.json''"
  by (simp add: sample_url_def apiBase_def sample_config_def contentsEndpoint_def repoPath_def
        sample_path_def SYNC_PREFIX_def sample_module_def js_simps)

lemma sample_readEndpoint:
  "config s = Some sample_config \<Longrightarrow>
   apiBase sample_config @ js ''/'' @ readEndpoint s sample_config sample_path
     = sample_url @ js ''?ref=main''"
  by (simp add: readEndpoint_def sample_url_def branch_or_def sample_config_def js_simps)

lemma fileKey_sample_read: "fileKey (sample_url @ js ''?ref=main'') = sample_url"
  by (simp add: sample_url_eval fileKey_def js_def ch_def)

lemma fileKey_sample: "fileKey sample_url = sample_url"
  by (simp add: sample_url_eval fileKey_def js_def ch_def)

lemma sample_read:
  "apiRequest ref_platform (readEndpoint (fresh_client sample_config st (repo_with c [])) sample_config sample_path)
     GET None (fresh_client sample_config st (repo_with c []))
   = (Inr (0, answer True 200 (JObj [(js ''content'', c), (js ''sha'', JStr (revToken 0))]) []),
      (fresh_client sample_config st (repo_with c []))
        \<lparr>nextResponse := 1,
         requestCache := [js ''GET-'' @ sample_url @ js ''?ref=main'' \<mapsto>
            Inr (0, answer True 200 (JObj [(js ''content'', c), (js ''sha'', JStr (revToken 0))]) [])]\<rparr>)"
  by (simp add: apiRequest_def Let_def sample_readEndpoint fresh_client_def settle_def
        ref_platform_def repo_fetch_def repo_apply_def repo_with_def fileKey_sample_read js_simps)

theorem empty_content_is_absent_witness:
  "fst (deleteFile ref_platform sample_path (js ''cleanup'')
          (fresh_client sample_config Map.empty (repo_with (JStr []) []))) = Inr True \<and>
   files (remote (snd (deleteFile ref_platform sample_path (js ''cleanup'')
          (fresh_client sample_config Map.empty (repo_with (JStr []) []))))) sample_url
     = Some (JStr [], revToken 0)"
proof -
  let ?s = "fresh_client sample_config Map.empty (repo_with (JStr []) [])"
  have c: "config ?s = Some sample_config" by (simp add: fresh_client_def)
  note w = empty_content_is_absent[OF c sample_read, of "[(js ''content'', JStr []), (js ''sha'', JStr (revToken 0))]" "js ''cleanup''"]
  have "deleteFile ref_platform sample_path (js ''cleanup'') ?s =
      (Inr True, (?s\<lparr>nextResponse := 1,
         requestCache := [js ''GET-'' @ sample_url @ js ''?ref=main'' \<mapsto>
            Inr (0, answer True 200 (JObj [(js ''content'', JStr []), (js ''sha'', JStr (revToken 0))]) [])]\<rparr>)
         \<lparr>bodyUsed := insert 0 (bodyUsed (?s\<lparr>nextResponse := 1,
         requestCache := [js ''GET-'' @ sample_url @ js ''?ref=main'' \<mapsto>
            Inr (0, answer True 200 (JObj [(js ''content'', JStr []), (js ''sha'', JStr (revToken 0))]) [])]\<rparr>))\<rparr>)"
    using w by (simp add: answer_def fresh_client_def js_simps)
  then show ?thesis by (simp add: fresh_client_def repo_with_def)
qed

section \<open>Exceptions\<close>







lemma hasDataChanged_total: "\<exists>v. fst (hasDataChanged P m s) = Inr v"
  unfolding hasDataChanged_def by (rule try_catch_total)

lemma checkSyncStatus_loop_total: "\<exists>v. fst (checkSyncStatus_loop P ms s) = Inr v"
proof (induction ms arbitrary: s)
  case Nil
  show ?case by (simp add: ret_def)
next
  case (Cons m ms)
  obtain e s1 where e: "try_catch (checkModule P m) (\<lambda>e. ret (failedStatus m)) s = (Inr e, s1)"
    using try_catch_total[of "checkModule P m" "failedStatus m" s]
    by (cases "try_catch (checkModule P m) (\<lambda>e. ret (failedStatus m)) s") auto
  obtain l s2 where l: "checkSyncStatus_loop P ms s1 = (Inr l, s2)"
    using Cons.IH[of s1] by (cases "checkSyncStatus_loop P ms s1") auto
  show ?case using e l by (simp add: seq_def ret_def)
qed













lemma parse_oops: "JSON_parse ref_platform (js ''oops'') = Inl SyntaxError"
  by (simp add: ref_platform_def ref_parse_def json_table_def
        sample_data_text_def sample_envelope_text_def js_def ch_def)







section \<open>The status of the modules\<close>

lemma checkModule_local_raises:
  "getData m (localStorage s) = Inl e \<Longrightarrow> checkModule P m s = (Inr (failedStatus m), s)"
  by (simp add: checkModule_def comp_defs getLocalDataHash_def)

lemma checkModule_absent:
  assumes "getData m (localStorage s) = Inr d"
    and "getFileContent P (SYNC_PREFIX @ filename m) s = (Inr None, s1)"
  shows "checkModule P m s = (Inr (absentStatus m (generateDataHash P d)), s1)"
  using assms toHex_nonempty[of "MD5 P (JSON_stringify P d)"]
  by (simp add: checkModule_def comp_defs getLocalDataHash_def absentStatus_def generateDataHash_def)

lemma checkModule_not_json:
  assumes "getData m (localStorage s) = Inr d"
    and "getFileContent P (SYNC_PREFIX @ filename m) s = (Inr (Some f), s1)"
    and "JSON_parse P (content f) = Inl e"
  shows "checkModule P m s = (Inr (failedStatus m), s1)"
  using assms
  by (simp add: checkModule_def comp_defs getLocalDataHash_def)

lemma checkModule_present:
  assumes "getData m (localStorage s) = Inr d"
    and "getFileContent P (SYNC_PREFIX @ filename m) s = (Inr (Some f), s1)"
    and "JSON_parse P (content f) = Inr (JObj fs)"
  shows "checkModule P m s =
     (Inr \<lparr>status_filename = filename m, localHash = generateDataHash P d,
           cloudHash = (if truthy (optprop (JObj fs) (js ''hash'')) then optprop (JObj fs) (js ''hash'') else JStr []),
           needsSync = (JStr (generateDataHash P d) \<noteq>
              (if truthy (optprop (JObj fs) (js ''hash'')) then optprop (JObj fs) (js ''hash'') else JStr [])),
           lastSyncTime = optprop (JObj fs) (js ''lastSyncTime'')\<rparr>, s1)"
  using assms
  by (simp add: checkModule_def comp_defs getLocalDataHash_def split: option.splits)

lemma Inr_result: "\<exists>v. fst (m s) = Inr v \<Longrightarrow> \<exists>v s1. m s = (Inr v, s1)"
  by (cases "m s") auto

lemma checkModule_total: "\<exists>e s1. checkModule P m s = (Inr e, s1)"
  unfolding checkModule_def by (rule Inr_result, rule try_catch_total)

lemma checkSyncStatus_loop_step:
  "\<exists>e s1 l s2. checkModule P m s = (Inr e, s1) \<and> checkSyncStatus_loop P ms s1 = (Inr l, s2) \<and>
     checkSyncStatus_loop P (m # ms) s = (Inr (e # l), s2)"
proof -
  obtain e s1 where e: "checkModule P m s = (Inr e, s1)" using checkModule_total by blast
  obtain l s2 where l: "checkSyncStatus_loop P ms s1 = (Inr l, s2)"
    using Inr_result[of "checkSyncStatus_loop P ms" s1] checkSyncStatus_loop_total[of P ms s1]
    by blast
  show ?thesis using e l by (simp add: comp_defs)
qed

lemma seq_InrE:
  assumes "seq m f s = (Inr v, s')"
  obtains x s1 where "m s = (Inr x, s1)" and "f x s1 = (Inr v, s')"
  using assms by (cases "m s") (auto simp: seq_def split: sum.splits)

lemma try_catch_InrE:
  assumes "try_catch m (\<lambda>e. ret x) s = (Inr v, s')"
  obtains "m s = (Inr v, s')" | "v = x"
  using assms by (cases "m s") (auto simp: try_catch_def ret_def split: sum.splits)

lemma checkModule_filename:
  assumes "checkModule P m s = (Inr e, s1)"
  shows "status_filename e = filename m"
  using assms unfolding checkModule_def
proof (elim try_catch_InrE)
  assume "seq (getLocalDataHash P m) (\<lambda>lh.
        seq (getFileContent P (SYNC_PREFIX @ filename m)) (\<lambda>fileInfo.
        seq (case fileInfo of
               None \<Rightarrow> ret (JStr [], JUndefined)
             | Some f \<Rightarrow>
                 seq (lift (JSON_parse P (content f))) (\<lambda>syncData.
                 seq (lift (get_prop syncData (js ''hash''))) (\<lambda>h.
                 seq (lift (get_prop syncData (js ''lastSyncTime''))) (\<lambda>t.
                 ret (if truthy h then h else JStr [], t))))) (\<lambda>cloud.
        ret \<lparr>status_filename = filename m, localHash = lh, cloudHash = fst cloud,
             needsSync = (JStr lh \<noteq> fst cloud), lastSyncTime = snd cloud\<rparr>))) s = (Inr e, s1)"
  then show ?thesis
    by (elim seq_InrE) (auto simp: ret_def)
next
  assume "e = failedStatus m"
  then show ?thesis by (simp add: failedStatus_def)
qed

lemma checkSyncStatus_loop_filenames:
  "checkSyncStatus_loop P ms s = (Inr l, s') \<Longrightarrow> map status_filename l = map filename ms"
proof (induction ms arbitrary: s l s')
  case Nil
  then show ?case by (simp add: ret_def)
next
  case (Cons m ms)
  obtain e s1 l' s2 where
    e: "checkModule P m s = (Inr e, s1)" and l': "checkSyncStatus_loop P ms s1 = (Inr l', s2)"
    and eq: "checkSyncStatus_loop P (m # ms) s = (Inr (e # l'), s2)"
    using checkSyncStatus_loop_step[of P m s ms] by blast
  have "l = e # l'" using eq Cons.prems by simp
  then show ?case using checkModule_filename[OF e] Cons.IH[OF l'] by simp
qed

lemma sample_filename: "SYNC_PREFIX @ filename sample_module = sample_path"
  by (simp add: sample_path_def)

lemma sample_read_lost:
  "fst (getFileContent ref_platform sample_path (fresh_client sample_config st lossy_repo)) = Inr None"
proof -
  let ?s = "fresh_client sample_config st lossy_repo"
  have c: "config ?s = Some sample_config" by (simp add: fresh_client_def)
  have "fst (apiRequest ref_platform (readEndpoint ?s sample_config sample_path) GET None ?s)
          = Inl NetworkError"
    by (simp add: apiRequest_def Let_def sample_readEndpoint fresh_client_def settle_def
        ref_platform_def repo_fetch_def lossy_repo_def)
  then show ?thesis
    by (auto simp: getFileContent_eval[OF c] split: prod.splits sum.splits)
qed

lemma decode_oops: "decodeContent (strip_space (js ''b29wcw=='')) = Inr (js ''oops'')"
  by (simp add: decodeContent_def strip_space_def js_space_def atob_def ascii_ws_def
        strip_padding_def b64val_def decodeURIComponent_def escape_def escape1_def
        escapeUnescaped_def is_alpha_def is_digit_def js_def ch_def)

lemma sample_read_oops:
  "fst (getFileContent ref_platform sample_path (fresh_client sample_config st oops_repo))
     = Inr (Some \<lparr>content = js ''oops'', sha = JStr (revToken 0)\<rparr>)"
proof -
  let ?s = "fresh_client sample_config st oops_repo"
  have c: "config ?s = Some sample_config" by (simp add: fresh_client_def)
  have f: "file_of (JObj [(js ''content'', JStr (js ''b29wcw=='')), (js ''sha'', JStr (revToken 0))])
             = Some \<lparr>content = js ''oops'', sha = JStr (revToken 0)\<rparr>"
    by (simp add: file_of_def decode_oops js_simps)
  show ?thesis
    unfolding oops_repo_def
    apply (subst getFileContent_eval[OF c[unfolded oops_repo_def]])
    apply (subst sample_read)
    apply (simp add: response_json_def answer_def fresh_client_def f)
    done
qed

lemma collapse_fst: "fst p = a \<Longrightarrow> p = (a, snd p)"
  by (cases p) simp

lemma checkSyncStatus_entries:
  fixes P :: "'w platform" and s :: "'w client"
  shows "(\<exists>sts s'. checkSyncStatus P s = (Inr sts, s') \<and>
                  map status_filename sts = map filename (dataModules s))
     \<and> (\<exists>e s1 l s2. checkModule P m s = (Inr e, s1) \<and>
            checkSyncStatus_loop P ms s1 = (Inr l, s2) \<and>
            checkSyncStatus_loop P (m # ms) s = (Inr (e # l), s2))
     \<and> (\<forall>e. getData m (localStorage s) = Inl e \<longrightarrow>
            checkModule P m s =
              (Inr \<lparr>status_filename = filename m, localHash = [], cloudHash = JStr [],
                    needsSync = False, lastSyncTime = JUndefined\<rparr>, s))
     \<and> (\<forall>d s1. getData m (localStorage s) = Inr d \<and>
            getFileContent P (SYNC_PREFIX @ filename m) s = (Inr None, s1) \<longrightarrow>
            checkModule P m s =
              (Inr \<lparr>status_filename = filename m, localHash = generateDataHash P d,
                    cloudHash = JStr [], needsSync = True, lastSyncTime = JUndefined\<rparr>, s1))
     \<and> (\<forall>d f s1 e. getData m (localStorage s) = Inr d \<and>
            getFileContent P (SYNC_PREFIX @ filename m) s = (Inr (Some f), s1) \<and>
            JSON_parse P (content f) = Inl e \<longrightarrow>
            checkModule P m s =
              (Inr \<lparr>status_filename = filename m, localHash = [], cloudHash = JStr [],
                    needsSync = False, lastSyncTime = JUndefined\<rparr>, s1))"
proof -
  obtain sts s' where l: "checkSyncStatus_loop P (dataModules s) s = (Inr sts, s')"
    using Inr_result[of "checkSyncStatus_loop P (dataModules s)" s]
      checkSyncStatus_loop_total[of P "dataModules s" s] by blast
  then have "checkSyncStatus P s = (Inr sts, s') \<and>
      map status_filename sts = map filename (dataModules s)"
    using checkSyncStatus_loop_filenames[OF l] by (simp add: checkSyncStatus_def comp_defs)
  then show ?thesis
    using checkSyncStatus_loop_step[of P m s ms] checkModule_local_raises[of m s _ P]
      checkModule_absent[of m s _ P] checkModule_not_json[of m s _ P]
    by (auto simp: absentStatus_def failedStatus_def)
qed

lemma sample_check_oops:
  "fst (checkSyncStatus ref_platform (fresh_client sample_config Map.empty oops_repo)) =
     Inr [\<lparr>status_filename = js ''notes.json'', localHash = [], cloudHash = JStr [],
           needsSync = False, lastSyncTime = JUndefined\<rparr>]"
proof -
  let ?c = "fresh_client sample_config Map.empty oops_repo"
  have g: "getData sample_module (localStorage ?c) = Inr (JArr [])"
    by (simp add: fresh_client_def sample_getData_empty)
  have r: "getFileContent ref_platform (SYNC_PREFIX @ filename sample_module) ?c
             = (Inr (Some \<lparr>content = js ''oops'', sha = JStr (revToken 0)\<rparr>),
                snd (getFileContent ref_platform sample_path ?c))"
    using collapse_fst[OF sample_read_oops[of Map.empty]] by (simp add: sample_filename)
  have p: "JSON_parse ref_platform (content \<lparr>content = js ''oops'', sha = JStr (revToken 0)\<rparr>)
             = Inl SyntaxError"
    using parse_oops by simp
  note cm = checkModule_not_json[OF g r p]
  have dm: "dataModules ?c = [sample_module]" by (simp add: fresh_client_def)
  have "fst (checkSyncStatus ref_platform ?c) = Inr [failedStatus sample_module]"
    by (simp add: checkSyncStatus_def comp_defs dm cm)
  then show ?thesis by (simp add: failedStatus_def sample_module_def)
qed

lemma sample_check_lost:
  "fst (checkSyncStatus ref_platform (fresh_client sample_config Map.empty lossy_repo)) =
     Inr [\<lparr>status_filename = js ''notes.json'',
           localHash = js ''000000000000000000000000000000b8'',
           cloudHash = JStr [], needsSync = True, lastSyncTime = JUndefined\<rparr>]"
proof -
  let ?s = "fresh_client sample_config Map.empty lossy_repo"
  have g: "getData sample_module (localStorage ?s) = Inr (JArr [])"
    by (simp add: fresh_client_def sample_getData_empty)
  have r: "getFileContent ref_platform (SYNC_PREFIX @ filename sample_module) ?s
             = (Inr None, snd (getFileContent ref_platform sample_path ?s))"
    using collapse_fst[OF sample_read_lost[of Map.empty]] by (simp add: sample_filename)
  note cm = checkModule_absent[OF g r]
  have dm: "dataModules ?s = [sample_module]" by (simp add: fresh_client_def)
  have "fst (checkSyncStatus ref_platform ?s) =
      Inr [absentStatus sample_module (generateDataHash ref_platform (JArr []))]"
    by (simp add: checkSyncStatus_def comp_defs dm cm)
  then show ?thesis
    by (simp add: absentStatus_def sample_hash_empty sample_module_def)
qed

text \<open>
  Claim C6. \<^verbatim>\<open>checkSyncStatus\<close> is to return one entry for each registered
  module, also when remote reads fail, and a module whose check fails is to
  report empty hashes and \<^verbatim>\<open>needsSync = false\<close>. The function has that entry in
  its catch clause and in the rejected branch of \<^verbatim>\<open>Promise.allSettled\<close>, and a
  module whose remote file is no JSON text gets it (second run below). A
  failed remote read never reaches the catch clause: \<^verbatim>\<open>getFileContent\<close> turns
  the failure into \<^verbatim>\<open>null\<close>. When the request for the only module is lost in the
  network (first run) the call returns one entry and raises nothing, but the
  entry carries the local hash and \<^verbatim>\<open>needsSync = true\<close>.
\<close>

theorem failed_read_reports_needsSync:
  "faults lossy_repo = [True] \<and>
   fst (getFileContent ref_platform sample_path
          (fresh_client sample_config Map.empty lossy_repo)) = Inr None \<and>
   fst (checkSyncStatus ref_platform (fresh_client sample_config Map.empty lossy_repo)) =
     Inr [\<lparr>status_filename = js ''notes.json'',
           localHash = js ''000000000000000000000000000000b8'',
           cloudHash = JStr [], needsSync = True, lastSyncTime = JUndefined\<rparr>] \<and>
   fst (checkSyncStatus ref_platform (fresh_client sample_config Map.empty oops_repo)) =
     Inr [\<lparr>status_filename = js ''notes.json'', localHash = [], cloudHash = JStr [],
           needsSync = False, lastSyncTime = JUndefined\<rparr>]"
  using sample_read_lost[of Map.empty] sample_check_lost sample_check_oops
  by (simp add: lossy_repo_def)

section \<open>Writing a file\<close>

lemma branch_or_config: "config s = Some c \<Longrightarrow> branch_or s d = branchOf c d"
  by (simp add: branch_or_def branchOf_def)

lemma apiRequest_write:
  "config s = Some c \<Longrightarrow> m \<noteq> GET \<Longrightarrow> apiRequest P e m b s = send P c m e b s"
  by (simp add: apiRequest_def send_def settle_def Let_def split: prod.splits sum.splits)

lemma send_config: "config (snd (send P c m e b s)) = config s"
  by (simp add: send_def split: prod.splits sum.splits)

lemma apiRequest_config_eq: "config (snd (apiRequest P e m b s)) = config s"
  by (auto simp: apiRequest_def settle_def Let_def split: option.splits prod.splits sum.splits)

lemma response_json_config: "config (snd (response_json r s)) = config s"
  by (simp add: response_json_def)

lemma getFileContent_config: "config (snd (getFileContent P path s)) = config s"
proof (cases "config s")
  case None
  then show ?thesis by (simp add: getFileContent_unconfigured)
next
  case (Some c)
  show ?thesis
    using apiRequest_config_eq[of P "readEndpoint s c path" GET None s]
    by (auto simp: getFileContent_eval[OF Some] response_json_def split: prod.splits sum.splits if_splits)
qed

lemma btoa_empty: "btoa [] = Inr []"
  by (simp add: btoa_def)

lemma tryPostCreate_eval:
  assumes "config s = Some c"
  shows "tryPostCreate P path message enc s =
     (case send P c POST (contentsEndpoint c path) (Some (postData c message enc)) s of
        (Inl e, s1) \<Rightarrow> (Inr False, s1)
      | (Inr r, s1) \<Rightarrow> (Inr (ok (snd r)), s1))"
  using assms
  by (simp add: tryPostCreate_def comp_defs getRepoPath_def apiRequest_write branch_or_config
        contentsEndpoint_def postData_def split: prod.splits sum.splits)

lemma tryPutWithEmptySha_eval:
  assumes "config s = Some c"
  shows "tryPutWithEmptySha P path message enc s =
     (case send P c PUT (contentsEndpoint c path) (Some (emptyShaData c message enc)) s of
        (Inl e, s1) \<Rightarrow> (Inr False, s1)
      | (Inr r, s1) \<Rightarrow> (Inr (ok (snd r)), s1))"
  using assms
  by (simp add: tryPutWithEmptySha_def comp_defs getRepoPath_def apiRequest_write branch_or_config
        contentsEndpoint_def emptyShaData_def split: prod.splits sum.splits)

lemma tryCreateThenUpdate_eval:
  assumes "config s = Some c"
  shows "tryCreateThenUpdate P path message enc s =
     (case send P c PUT (contentsEndpoint c path) (Some (placeholderData c path)) s of
        (Inl e, s1) \<Rightarrow> (Inr False, s1)
      | (Inr r, s1) \<Rightarrow>
          if ok (snd r) then
            (case response_json r s1 of
               (Inl e, s2) \<Rightarrow> (Inr False, s2)
             | (Inr v, s2) \<Rightarrow>
                 (case get_prop v (js ''content'') of
                    Inl e \<Rightarrow> (Inr False, s2)
                  | Inr cv \<Rightarrow>
                      if truthy (optprop cv (js ''sha'')) then
                        (case send P c PUT (contentsEndpoint c path)
                                (Some (updateData c message enc (optprop cv (js ''sha'')))) s2 of
                           (Inl e, s3) \<Rightarrow> (Inr False, s3)
                         | (Inr r2, s3) \<Rightarrow> (Inr (ok (snd r2)), s3))
                      else (Inr False, s2)))
          else (Inr False, s1))"
  using assms
  by (simp add: tryCreateThenUpdate_def comp_defs getRepoPath_def apiRequest_write
        branch_or_config contentsEndpoint_def placeholderData_def btoa_empty Let_def
        updateData_def send_def response_json_def
        split: prod.splits sum.splits option.splits)

lemma tryPostCreate_total: "\<exists>a s1. tryPostCreate P path message enc s = (Inr a, s1)"
  unfolding tryPostCreate_def by (rule Inr_result, rule try_catch_total)

lemma tryCreateThenUpdate_total: "\<exists>a s1. tryCreateThenUpdate P path message enc s = (Inr a, s1)"
  unfolding tryCreateThenUpdate_def by (rule Inr_result, rule try_catch_total)

lemma tryPutWithEmptySha_total: "\<exists>a s1. tryPutWithEmptySha P path message enc s = (Inr a, s1)"
  unfolding tryPutWithEmptySha_def by (rule Inr_result, rule try_catch_total)

lemma createNewFileForGitee_chain:
  assumes "encodeContent contentText = Inr enc"
  shows "\<exists>a s1. tryPostCreate P path message enc s = (Inr a, s1) \<and>
     (if a then createNewFileForGitee P path contentText message s = (Inr True, s1)
      else \<exists>b s2. tryCreateThenUpdate P path message enc s1 = (Inr b, s2) \<and>
        (if b then createNewFileForGitee P path contentText message s = (Inr True, s2)
         else \<exists>d s3. tryPutWithEmptySha P path message enc s2 = (Inr d, s3) \<and>
              createNewFileForGitee P path contentText message s = (Inr d, s3)))"
proof -
  obtain a s1 where a: "tryPostCreate P path message enc s = (Inr a, s1)"
    using tryPostCreate_total by blast
  obtain b s2 where b: "tryCreateThenUpdate P path message enc s1 = (Inr b, s2)"
    using tryCreateThenUpdate_total by blast
  obtain d s3 where d: "tryPutWithEmptySha P path message enc s2 = (Inr d, s3)"
    using tryPutWithEmptySha_total by blast
  show ?thesis
    using assms a b d by (simp add: createNewFileForGitee_def comp_defs)
qed

lemma createOrUpdateFile_gitee_new:
  assumes "config s = Some c" and "provider c = gitee"
    and "encodeContent contentText = Inr enc"
    and "\<not> truthy existingSha"
    and "getFileContent P path s = (Inr fi, s0)"
    and "case fi of None \<Rightarrow> True | Some f \<Rightarrow> \<not> truthy (sha f)"
  shows "createOrUpdateFile P path contentText message existingSha s =
         createNewFileForGitee P path contentText message s0"
proof -
  have c0: "config s0 = Some c"
    using getFileContent_config[of P path s] assms(1,5) by simp
  obtain r s' where r: "createNewFileForGitee P path contentText message s0 = (Inr r, s')"
    using Inr_result[of "createNewFileForGitee P path contentText message" s0]
      try_catch_total[of _ False s0] unfolding createNewFileForGitee_def by blast
  show ?thesis
    using assms c0 r
    by (simp add: createOrUpdateFile_def comp_defs provider_is_def split: option.splits)
qed

text \<open>
  Claim C4. On Gitee, when no token is passed and the read finds none, a put
  of a content that can be encoded runs the three creation strategies in
  their order, each in the state that the one before left: the POST; then the
  PUT of an empty file followed by the PUT of the content with the token of
  the answer; then the PUT with the token \<^verbatim>\<open>''\<close>. The put succeeds with the
  first strategy that succeeds and makes no further request; it fails when
  the third has failed. What each strategy sends is stated for every state
  of a configured client.
\<close>

theorem gitee_creation_chain:
  fixes P :: "'w platform" and s :: "'w client"
  assumes "config s = Some c" and "provider c = gitee"
    and "encodeContent contentText = Inr enc"
    and "\<not> truthy existingSha"
    and "getFileContent P path s = (Inr fi, s0)"
    and "case fi of None \<Rightarrow> True | Some f \<Rightarrow> \<not> truthy (sha f)"
  shows "(\<exists>a s1. tryPostCreate P path message enc s0 = (Inr a, s1) \<and>
     (if a then createOrUpdateFile P path contentText message existingSha s = (Inr True, s1)
      else \<exists>b s2. tryCreateThenUpdate P path message enc s1 = (Inr b, s2) \<and>
        (if b then createOrUpdateFile P path contentText message existingSha s = (Inr True, s2)
         else \<exists>d s3. tryPutWithEmptySha P path message enc s2 = (Inr d, s3) \<and>
              createOrUpdateFile P path contentText message existingSha s = (Inr d, s3))))
   \<and> (\<forall>s' :: 'w client. config s' = Some c \<longrightarrow>
         tryPostCreate P path message enc s' =
           (case send P c POST (contentsEndpoint c path) (Some (postData c message enc)) s' of
              (Inl e, s1) \<Rightarrow> (Inr False, s1)
            | (Inr r, s1) \<Rightarrow> (Inr (ok (snd r)), s1)))
   \<and> (\<forall>s' :: 'w client. config s' = Some c \<longrightarrow>
         tryCreateThenUpdate P path message enc s' =
           (case send P c PUT (contentsEndpoint c path) (Some (placeholderData c path)) s' of
              (Inl e, s1) \<Rightarrow> (Inr False, s1)
            | (Inr r, s1) \<Rightarrow>
                if ok (snd r) then
                  (case response_json r s1 of
                     (Inl e, s2) \<Rightarrow> (Inr False, s2)
                   | (Inr v, s2) \<Rightarrow>
                       (case get_prop v (js ''content'') of
                          Inl e \<Rightarrow> (Inr False, s2)
                        | Inr cv \<Rightarrow>
                            if truthy (optprop cv (js ''sha'')) then
                              (case send P c PUT (contentsEndpoint c path)
                                      (Some (updateData c message enc (optprop cv (js ''sha'')))) s2 of
                                 (Inl e, s3) \<Rightarrow> (Inr False, s3)
                               | (Inr r2, s3) \<Rightarrow> (Inr (ok (snd r2)), s3))
                            else (Inr False, s2)))
                else (Inr False, s1)))
   \<and> (\<forall>s' :: 'w client. config s' = Some c \<longrightarrow>
         tryPutWithEmptySha P path message enc s' =
           (case send P c PUT (contentsEndpoint c path) (Some (emptyShaData c message enc)) s' of
              (Inl e, s1) \<Rightarrow> (Inr False, s1)
            | (Inr r, s1) \<Rightarrow> (Inr (ok (snd r)), s1)))"
proof (intro conjI allI impI)
  show "\<exists>a s1. tryPostCreate P path message enc s0 = (Inr a, s1) \<and>
     (if a then createOrUpdateFile P path contentText message existingSha s = (Inr True, s1)
      else \<exists>b s2. tryCreateThenUpdate P path message enc s1 = (Inr b, s2) \<and>
        (if b then createOrUpdateFile P path contentText message existingSha s = (Inr True, s2)
         else \<exists>d s3. tryPutWithEmptySha P path message enc s2 = (Inr d, s3) \<and>
              createOrUpdateFile P path contentText message existingSha s = (Inr d, s3)))"
    unfolding createOrUpdateFile_gitee_new[OF assms, of message]
    by (rule createNewFileForGitee_chain[OF assms(3)])
qed (simp_all add: tryPostCreate_eval tryCreateThenUpdate_eval tryPutWithEmptySha_eval)

subsection \<open>The chain on the reference repository\<close>

lemma encode_hi: "encodeContent (js ''hi'') = Inr (js ''aGk='')"
  by (simp add: encodeContent_def js_def ch_def uriUnescaped_def is_alpha_def is_digit_def
        btoa_def b64char_def hex2_def hex4_def hexval_def)

lemma sample_send:
  "send ref_platform sample_config m (contentsEndpoint sample_config sample_path) b s =
     (case repo_fetch (sample_request m b) (remote s) of
        (Inl e, w) \<Rightarrow> (Inl e, s\<lparr>remote := w\<rparr>)
      | (Inr r, w) \<Rightarrow> (Inr (nextResponse s, r), s\<lparr>remote := w, nextResponse := Suc (nextResponse s)\<rparr>))"
  by (simp add: send_def ref_platform_def sample_url_def sample_request_def sample_config_def js_simps)

lemma sample_request_sel:
  "req_method (sample_request m b) = m" "url (sample_request m b) = sample_url"
  "body (sample_request m b) = b"
  by (simp_all add: sample_request_def)

lemma sample_read_absent:
  "getFileContent ref_platform sample_path (fresh_client sample_config st (flaky_repo (False # fs)))
   = (Inr None, (fresh_client sample_config st (flaky_repo fs))
        \<lparr>nextResponse := 1,
         requestCache := [js ''GET-'' @ sample_url @ js ''?ref=main'' \<mapsto> Inr (0, notFound)]\<rparr>)"
proof -
  let ?s = "fresh_client sample_config st (flaky_repo (False # fs))"
  have c: "config ?s = Some sample_config" by (simp add: fresh_client_def)
  have a: "apiRequest ref_platform (readEndpoint ?s sample_config sample_path) GET None ?s
     = (Inr (0, notFound), (fresh_client sample_config st (flaky_repo fs))
        \<lparr>nextResponse := 1,
         requestCache := [js ''GET-'' @ sample_url @ js ''?ref=main'' \<mapsto> Inr (0, notFound)]\<rparr>)"
    by (simp add: apiRequest_def Let_def sample_readEndpoint fresh_client_def settle_def
        ref_platform_def repo_fetch_def repo_apply_def flaky_repo_def fileKey_sample_read js_simps)
  show ?thesis
    apply (subst getFileContent_eval[OF c])
    apply (subst a)
    apply (simp add: notFound_def answer_def)
    done
qed

lemma revToken_nonempty: "revToken n \<noteq> []"
  by (simp add: revToken_def js_def)

lemma revToken_inject: "revToken a = revToken b \<longleftrightarrow> a = b"
proof
  assume "revToken a = revToken b"
  then have "length (revToken a) = length (revToken b)" by simp
  then show "a = b" by (simp add: revToken_def)
qed simp

lemmas repo_eval = revToken_nonempty revToken_inject repo_fetch_def repo_apply_def sample_request_sel fileKey_sample store_def
  body_member_def flaky_repo_def written_def answer_def notFound_def conflict_def

theorem gitee_creation_chain_witness:
  "fst (createOrUpdateFile ref_platform sample_path (js ''hi'') (js ''first'') JUndefined
          (fresh_client sample_config Map.empty (flaky_repo [False]))) = Inr True \<and>
   files (remote (snd (createOrUpdateFile ref_platform sample_path (js ''hi'') (js ''first'') JUndefined
          (fresh_client sample_config Map.empty (flaky_repo [False]))))) sample_url
     = Some (JStr (js ''aGk=''), revToken 0) \<and>
   fst (createOrUpdateFile ref_platform sample_path (js ''hi'') (js ''first'') JUndefined
          (fresh_client sample_config Map.empty (flaky_repo [False, True, False, False]))) = Inr True \<and>
   files (remote (snd (createOrUpdateFile ref_platform sample_path (js ''hi'') (js ''first'') JUndefined
          (fresh_client sample_config Map.empty (flaky_repo [False, True, False, False]))))) sample_url
     = Some (JStr (js ''aGk=''), revToken 1) \<and>
   fst (createOrUpdateFile ref_platform sample_path (js ''hi'') (js ''first'') JUndefined
          (fresh_client sample_config Map.empty (flaky_repo [False, True, True, False]))) = Inr False"
proof -
  have c: "config (fresh_client sample_config Map.empty w) = Some sample_config" for w :: repo
    by (simp add: fresh_client_def)
  have p: "provider sample_config = gitee" by (simp add: sample_config_def)
  have n: "\<not> truthy JUndefined" by simp
  have t: "case None :: FileContent option of None \<Rightarrow> True | Some f \<Rightarrow> \<not> truthy (sha f)" by simp
  note A = gitee_creation_chain[OF c p encode_hi n sample_read_absent[of Map.empty "[]"] t, of "js ''first''"]
  note B = gitee_creation_chain[OF c p encode_hi n sample_read_absent[of Map.empty "[True, False, False]"] t, of "js ''first''"]
  note C = gitee_creation_chain[OF c p encode_hi n sample_read_absent[of Map.empty "[True, True, False]"] t, of "js ''first''"]
  note ev = tryPostCreate_eval tryCreateThenUpdate_eval tryPutWithEmptySha_eval sample_send
    repo_eval postData_def placeholderData_def updateData_def emptyShaData_def response_json_def
    fresh_client_def js_simps
  let ?A = "createOrUpdateFile ref_platform sample_path (js ''hi'') (js ''first'') JUndefined
          (fresh_client sample_config Map.empty (flaky_repo [False]))"
  let ?B = "createOrUpdateFile ref_platform sample_path (js ''hi'') (js ''first'') JUndefined
          (fresh_client sample_config Map.empty (flaky_repo [False, True, False, False]))"
  let ?C = "createOrUpdateFile ref_platform sample_path (js ''hi'') (js ''first'') JUndefined
          (fresh_client sample_config Map.empty (flaky_repo [False, True, True, False]))"
  have a: "fst ?A = Inr True \<and> files (remote (snd ?A)) sample_url = Some (JStr (js ''aGk=''), revToken 0)"
    using A[THEN conjunct1] by (auto simp: ev)
  have b: "fst ?B = Inr True \<and> files (remote (snd ?B)) sample_url = Some (JStr (js ''aGk=''), revToken 1)"
    using B[THEN conjunct1] by (auto simp: ev)
  have c: "fst ?C = Inr False"
    using C[THEN conjunct1] by (auto simp: ev)
  show ?thesis using a b c by simp
qed

section \<open>The retry of a rejected write\<close>

lemma run_ret: "run (ret x) s = (Inr x, s)"
  by (simp add: run_def ret_def)

lemma run_lift: "run (lift r) s = (r, s)"
  by (simp add: run_def lift_def)

lemma run_throw: "run (throw e) s = (Inl e, s)"
  by (simp add: run_def throw_def)

lemma run_get_state: "run get_state s = (Inr s, s)"
  by (simp add: run_def get_state_def)

lemma run_seq:
  "run (seq m f) s = (case run m s of (Inl e, s1) \<Rightarrow> (Inl e, s1) | (Inr x, s1) \<Rightarrow> run (f x) s1)"
  by (simp add: run_def seq_def split: prod.splits sum.splits)

lemma run_if: "run (if b then m1 else m2) s = (if b then run m1 s else run m2 s)"
  by simp

lemma run_option:
  "run (case x of None \<Rightarrow> a | Some y \<Rightarrow> b y) s = (case x of None \<Rightarrow> run a s | Some y \<Rightarrow> run (b y) s)"
  by (simp split: option.splits)

lemma run_try_seq:
  "run (try_catch (seq m f) h) s =
     (case run m s of (Inl e, s1) \<Rightarrow> run (h e) s1 | (Inr x, s1) \<Rightarrow> run (try_catch (f x) h) s1)"
  by (simp add: run_def try_catch_def seq_def split: prod.splits sum.splits)

lemma run_try_ret: "run (try_catch (ret x) h) s = (Inr x, s)"
  by (simp add: run_def try_catch_def ret_def)

lemma run_try_throw: "run (try_catch (throw e) h) s = run (h e) s"
  by (simp add: run_def try_catch_def throw_def)

lemma run_try_if:
  "run (try_catch (if b then m1 else m2) h) s =
     (if b then run (try_catch m1 h) s else run (try_catch m2 h) s)"
  by simp

lemma run_try_option:
  "run (try_catch (case x of None \<Rightarrow> a | Some y \<Rightarrow> b y) h) s =
     (case x of None \<Rightarrow> run (try_catch a h) s | Some y \<Rightarrow> run (try_catch (b y) h) s)"
  by (simp split: option.splits)

lemma run_getRepoPath: "config s = Some c \<Longrightarrow> run getRepoPath s = (Inr (repoPath c), s)"
  by (simp add: run_def getRepoPath_def)

lemma run_prims:
  "run (apiRequest P e m b) s = apiRequest P e m b s"
  "run (response_text r) s = response_text r s"
  "run (response_json r) s = response_json r s"
  "run (getFileContent P path) s = getFileContent P path s"
  "run (try_catch (put_result r) h) s = try_catch (put_result r) h s"
  "run (createNewFileForGitee P path t msg) s = createNewFileForGitee P path t msg s"
  by (simp_all add: run_def)

lemmas run_simps = run_ret run_lift run_throw run_get_state run_seq run_if run_option
  run_try_seq run_try_ret run_try_throw run_try_if run_try_option run_prims

lemma createOrUpdateFile_not_encodable:
  "encodeContent contentText = Inl e \<Longrightarrow>
   createOrUpdateFile P path contentText message existingSha s = (Inr False, s)"
  by (simp add: createOrUpdateFile_def comp_defs)

lemmas put_simps = createOrUpdateFile_def run_simps run_getRepoPath provider_is_def
      branch_or_config Let_def putWithRetry_def putFields_def usableSha_def contentsEndpoint_def
      put_outcome_def trim_def

lemma createOrUpdateFile_put_given:
  assumes "config s = Some c" and "encodeContent contentText = Inr enc"
    and "truthy sh"
  shows "createOrUpdateFile P path contentText message sh s =
     (if truthy sh \<and> (case sh of JStr t \<Rightarrow> False | _ \<Rightarrow> True) then (Inr False, s)
      else putWithRetry P c path message enc sh s)"
proof -
  have "run (createOrUpdateFile P path contentText message sh) s =
     (if truthy sh \<and> (case sh of JStr t \<Rightarrow> False | _ \<Rightarrow> True) then (Inr False, s)
      else putWithRetry P c path message enc sh s)"
    using assms
    by (cases sh) (simp_all add: put_simps
      cong: prod.case_cong sum.case_cong option.case_cong if_cong)
  then show ?thesis by (simp add: run_def)
qed

lemma createOrUpdateFile_put_read:
  assumes "config s = Some c" and "encodeContent contentText = Inr enc"
    and "\<not> truthy existingSha"
    and "getFileContent P path s = (Inr fi, s0)"
    and "(case fi of None \<Rightarrow> JUndefined | Some f \<Rightarrow> sha f) = sh"
    and "truthy sh \<or> provider c \<noteq> gitee"
  shows "createOrUpdateFile P path contentText message existingSha s =
     (if truthy sh \<and> (case sh of JStr t \<Rightarrow> False | _ \<Rightarrow> True) then (Inr False, s0)
      else putWithRetry P c path message enc sh s0)"
proof -
  have c0: "config s0 = Some c"
    using getFileContent_config[of P path s] assms(1,4) by simp
  have "run (createOrUpdateFile P path contentText message existingSha) s =
     (if truthy sh \<and> (case sh of JStr t \<Rightarrow> False | _ \<Rightarrow> True) then (Inr False, s0)
      else putWithRetry P c path message enc sh s0)"
    using assms c0
    by (cases sh; cases "provider c = gitee") (simp_all add: put_simps
      cong: prod.case_cong sum.case_cong option.case_cong if_cong)
  then show ?thesis by (simp add: run_def)
qed

text \<open>
  Claim C5, as amended. A put by a configured client whose content cannot be
  encoded fails without a request. Otherwise the token of the put is the one
  that was passed or, when none was passed, the one of the file that a read
  finds. Without a token on Gitee the put is the creation chain, and a token
  that is no string ends the put with false before any write. In every
  other case the write goes out once. When the request throws or is answered
  with success, there is no second write. When it is rejected, the text of
  the answer is read; unless the provider is Gitee and the text contains
  \<^verbatim>\<open>sha\<close>, the result is false and there is no second write. Otherwise the
  file is read once more: when that read yields nothing, the result is false
  and the write is not repeated; when it yields a file, the write is repeated
  once with the token of that file, and what the second write yields is the
  result.
\<close>

theorem retry_policy:
  fixes P :: "'w platform" and s :: "'w client"
  assumes "config s = Some c"
  shows "(\<forall>e. encodeContent contentText = Inl e \<longrightarrow>
            createOrUpdateFile P path contentText message existingSha s = (Inr False, s))
   \<and> (\<forall>enc sh s0.
        encodeContent contentText = Inr enc \<and>
        (truthy existingSha \<and> sh = existingSha \<and> s0 = s \<or>
         \<not> truthy existingSha \<and>
         (\<exists>fi. getFileContent P path s = (Inr fi, s0) \<and>
               sh = (case fi of None \<Rightarrow> JUndefined | Some f \<Rightarrow> sha f))) \<longrightarrow>
        createOrUpdateFile P path contentText message existingSha s =
          (if \<not> truthy sh \<and> provider c = gitee then
             createNewFileForGitee P path contentText message s0
           else if truthy sh \<and> (case sh of JStr t \<Rightarrow> False | _ \<Rightarrow> True) then (Inr False, s0)
           else
             (case apiRequest P (contentsEndpoint c path) PUT
                     (Some (JObj (putFields c message enc sh))) s0 of
                (Inl e, s1) \<Rightarrow> (Inr False, s1)
              | (Inr r, s1) \<Rightarrow>
                  if ok (snd r) then try_catch (put_result r) (\<lambda>e. ret False) s1
                  else
                    (case response_text r s1 of
                       (Inl e, s2) \<Rightarrow> (Inr False, s2)
                     | (Inr errorText, s2) \<Rightarrow>
                         if provider c = gitee \<and> str_includes errorText (js ''sha'') then
                           (case getFileContent P path s2 of
                              (Inl e, s3) \<Rightarrow> (Inr False, s3)
                            | (Inr freshFile, s3) \<Rightarrow>
                                (case freshFile of
                                   None \<Rightarrow> (Inr False, s3)
                                 | Some f \<Rightarrow>
                                    (case apiRequest P (contentsEndpoint c path) PUT
                                        (Some (JObj (set_prop (js ''sha'') (sha f)
                                                       (putFields c message enc sh)))) s3 of
                                       (Inl e, s4) \<Rightarrow> (Inr False, s4)
                                     | (Inr r2, s4) \<Rightarrow>
                                         if ok (snd r2)
                                         then try_catch (put_result r2) (\<lambda>e. ret False) s4
                                         else (Inr False, s4))))
                         else (Inr False, s2)))))"
proof (intro conjI allI impI)
  fix e assume "encodeContent contentText = Inl e"
  then show "createOrUpdateFile P path contentText message existingSha s = (Inr False, s)"
    by (rule createOrUpdateFile_not_encodable)
next
  fix enc sh s0
  assume h: "encodeContent contentText = Inr enc \<and>
        (truthy existingSha \<and> sh = existingSha \<and> s0 = s \<or>
         \<not> truthy existingSha \<and>
         (\<exists>fi. getFileContent P path s = (Inr fi, s0) \<and>
               sh = (case fi of None \<Rightarrow> JUndefined | Some f \<Rightarrow> sha f)))"
  then have enc: "encodeContent contentText = Inr enc" by simp
  let ?R = "if \<not> truthy sh \<and> provider c = gitee then
             createNewFileForGitee P path contentText message s0
           else if truthy sh \<and> (case sh of JStr t \<Rightarrow> False | _ \<Rightarrow> True) then (Inr False, s0)
           else putWithRetry P c path message enc sh s0"
  have "createOrUpdateFile P path contentText message existingSha s = ?R"
  proof (cases "truthy existingSha")
    case True
    then have "sh = existingSha" "s0 = s" using h by auto
    then show ?thesis
      using createOrUpdateFile_put_given[OF assms enc True, of P path message] True by simp
  next
    case False
    then obtain fi where fi: "getFileContent P path s = (Inr fi, s0)"
      and sh: "(case fi of None \<Rightarrow> JUndefined | Some f \<Rightarrow> sha f) = sh"
      using h by auto
    show ?thesis
    proof (cases "\<not> truthy sh \<and> provider c = gitee")
      case True
      then have "case fi of None \<Rightarrow> True | Some f \<Rightarrow> \<not> truthy (sha f)"
        using sh by (cases fi) auto
      then show ?thesis
        using createOrUpdateFile_gitee_new[OF assms _ enc False fi, of message] True by simp
    next
      case no: False
      then have "truthy sh \<or> provider c \<noteq> gitee" by auto
      from createOrUpdateFile_put_read[OF assms enc False fi sh this, of message]
      show ?thesis using no by auto
    qed
  qed
  then show "createOrUpdateFile P path contentText message existingSha s =
          (if \<not> truthy sh \<and> provider c = gitee then
             createNewFileForGitee P path contentText message s0
           else if truthy sh \<and> (case sh of JStr t \<Rightarrow> False | _ \<Rightarrow> True) then (Inr False, s0)
           else
             (case apiRequest P (contentsEndpoint c path) PUT
                     (Some (JObj (putFields c message enc sh))) s0 of
                (Inl e, s1) \<Rightarrow> (Inr False, s1)
              | (Inr r, s1) \<Rightarrow>
                  if ok (snd r) then try_catch (put_result r) (\<lambda>e. ret False) s1
                  else
                    (case response_text r s1 of
                       (Inl e, s2) \<Rightarrow> (Inr False, s2)
                     | (Inr errorText, s2) \<Rightarrow>
                         if provider c = gitee \<and> str_includes errorText (js ''sha'') then
                           (case getFileContent P path s2 of
                              (Inl e, s3) \<Rightarrow> (Inr False, s3)
                            | (Inr freshFile, s3) \<Rightarrow>
                                (case freshFile of
                                   None \<Rightarrow> (Inr False, s3)
                                 | Some f \<Rightarrow>
                                    (case apiRequest P (contentsEndpoint c path) PUT
                                        (Some (JObj (set_prop (js ''sha'') (sha f)
                                                       (putFields c message enc sh)))) s3 of
                                       (Inl e, s4) \<Rightarrow> (Inr False, s4)
                                     | (Inr r2, s4) \<Rightarrow>
                                         if ok (snd r2)
                                         then try_catch (put_result r2) (\<lambda>e. ret False) s4
                                         else (Inr False, s4))))
                         else (Inr False, s2))))"
    unfolding putWithRetry_def put_outcome_def .
qed

subsection \<open>Runs on the reference repository\<close>

lemma fresh_client_at: "fresh_client sample_config st w = client_at st Map.empty w Map.empty {} 0"
  by (simp add: fresh_client_def client_at_def)

lemma client_at_sel:
  "config (client_at st hc w cache used n) = Some sample_config"
  "dataModules (client_at st hc w cache used n) = [sample_module]"
  "localHashCache (client_at st hc w cache used n) = hc"
  "requestCache (client_at st hc w cache used n) = cache"
  "bodyUsed (client_at st hc w cache used n) = used"
  "nextResponse (client_at st hc w cache used n) = n"
  "localStorage (client_at st hc w cache used n) = st"
  "remote (client_at st hc w cache used n) = w"
  by (simp_all add: client_at_def)

lemma sample_writeEndpoint:
  "apiBase sample_config @ js ''/'' @ contentsEndpoint sample_config sample_path = sample_url"
  by (simp add: sample_url_def)

lemma write_at:
  "m \<noteq> GET \<Longrightarrow>
   apiRequest ref_platform (contentsEndpoint sample_config sample_path) m b
     (client_at st hc w cache used n) =
     (case repo_fetch (sample_request m b) w of
        (Inl e, w') \<Rightarrow> (Inl e, client_at st hc w' cache used n)
      | (Inr r, w') \<Rightarrow> (Inr (n, r), client_at st hc w' cache used (Suc n)))"
proof -
  assume m: "m \<noteq> GET"
  have c: "config (client_at st hc w cache used n) = Some sample_config"
    by (simp add: client_at_sel)
  obtain out w' where f: "repo_fetch (sample_request m b) w = (out, w')"
    by (cases "repo_fetch (sample_request m b) w") auto
  show ?thesis
    unfolding apiRequest_write[OF c m] sample_send
    by (cases out) (simp_all add: f client_at_def)
qed

lemma read_at:
  "apiRequest ref_platform (readEndpoint (client_at st hc w cache used n) sample_config sample_path)
     GET None (client_at st hc w cache used n) =
     (case cache READ_KEY of
        Some out \<Rightarrow> (out, client_at st hc w cache used n)
      | None \<Rightarrow>
         (case repo_fetch read_request w of
            (Inl e, w') \<Rightarrow> (Inl e, client_at st hc w' (cache(READ_KEY \<mapsto> Inl e)) used n)
          | (Inr r, w') \<Rightarrow>
              (Inr (n, r), client_at st hc w' (cache(READ_KEY \<mapsto> Inr (n, r))) used (Suc n))))"
proof -
  let ?s = "client_at st hc w cache used n"
  have c: "config ?s = Some sample_config"
    by (simp add: client_at_sel)
  have e: "apiBase sample_config @ js ''/'' @ readEndpoint ?s sample_config sample_path
             = sample_url @ js ''?ref=main''"
    by (rule sample_readEndpoint[OF c])
  have k: "method_name GET @ js ''-'' @ sample_url @ js ''?ref=main'' = READ_KEY"
    by (simp add: READ_KEY_def js_simps)
  have q: "\<lparr>req_method = GET, url = sample_url @ js ''?ref=main'',
            authorization = js ''token '' @ token sample_config, body = None\<rparr> = read_request"
    by (simp add: read_request_def sample_config_def js_simps)
  obtain out w' where f: "repo_fetch read_request w = (out, w')"
    by (cases "repo_fetch read_request w") auto
  have a: "apiRequest ref_platform (readEndpoint ?s sample_config sample_path) GET None ?s =
     (case requestCache ?s READ_KEY of
        Some cached \<Rightarrow> (cached, ?s)
      | None \<Rightarrow>
         (case fetch ref_platform read_request (remote ?s) of
            (Inl e, w) \<Rightarrow> settle GET READ_KEY (Inl e) (?s\<lparr>remote := w\<rparr>)
          | (Inr r, w) \<Rightarrow>
              settle GET READ_KEY (Inr (nextResponse ?s, r))
                (?s\<lparr>remote := w, nextResponse := Suc (nextResponse ?s)\<rparr>)))"
    unfolding apiRequest_def c option.case Let_def e k q by simp
  show ?thesis
    unfolding a
    by (cases "cache READ_KEY"; cases out)
       (simp_all add: client_at_def settle_def ref_platform_def f)
qed

lemma getFileContent_at:
  "getFileContent ref_platform sample_path (client_at st hc w cache used n) =
     (case apiRequest ref_platform
             (readEndpoint (client_at st hc w cache used n) sample_config sample_path)
             GET None (client_at st hc w cache used n) of
        (Inl e, s1) \<Rightarrow> (Inr None, s1)
      | (Inr r, s1) \<Rightarrow>
          if ok (snd r) then
            (case response_json r s1 of
               (Inl e, s2) \<Rightarrow> (Inr None, s2)
             | (Inr data, s2) \<Rightarrow> (Inr (file_of data), s2))
          else (Inr None, s1))"
  by (rule getFileContent_eval) (simp add: client_at_sel)

lemma response_json_at:
  "response_json (i, r) (client_at st hc w cache used n) =
     (if i \<in> used then (Inl TypeError, client_at st hc w cache used n)
      else (case json_body r of None \<Rightarrow> Inl SyntaxError | Some v \<Rightarrow> Inr v,
            client_at st hc w cache (insert i used) n))"
  by (simp add: response_json_def client_at_def)

lemma response_text_at:
  "response_text (i, r) (client_at st hc w cache used n) =
     (if i \<in> used then (Inl TypeError, client_at st hc w cache used n)
      else (Inr (text_body r), client_at st hc w cache (insert i used) n))"
  by (simp add: response_text_def client_at_def)


lemma fileKey_read: "fileKey (url read_request) = sample_url" "req_method read_request = GET"
  by (simp_all add: read_request_def fileKey_sample_read)

lemma answers:
  "ok notFound = False" "ok conflict = False" "ok (written st n) = True"
  "text_body conflict = js ''sha does not match''"
  "json_body (written st n) = Some (JObj [(js ''content'', JObj [(js ''sha'', JStr (revToken n))])])"
  "ok (answer k st v t) = k" "json_body (answer k st v t) = Some v"
  by (simp_all add: notFound_def conflict_def written_def answer_def)

lemma revToken_0: "revToken 0 = js ''rev''" "revToken (Suc 0) = js ''rev+''"
  by (simp_all add: revToken_def js_def)

lemma usable_stale: "usableSha (JStr (js ''stale''))" "usableSha (JStr (js ''rev''))"
  by (simp_all add: usableSha_def trim_def js_space_def js_def ch_def)

lemma includes_sha: "str_includes (js ''sha does not match'') (js ''sha'')"
  by (simp add: js_def ch_def)

lemma gitee_sample: "provider sample_config = gitee" "branchOf sample_config d = d"
  by (simp_all add: sample_config_def branchOf_def)

lemma file_of_oops:
  "file_of (JObj [(js ''content'', JStr (js ''b29wcw=='')), (js ''sha'', JStr (js ''rev''))])
     = Some \<lparr>content = js ''oops'', sha = JStr (js ''rev'')\<rparr>"
  by (simp add: file_of_def decode_oops js_simps)

lemmas at_simps = write_at read_at getFileContent_at response_json_at response_text_at
  answers fileKey_read sample_request_sel fileKey_sample

theorem retry_policy_witness:
  "fst (createOrUpdateFile ref_platform sample_path (js ''hi'') (js ''second'') (JStr (js ''stale''))
          (fresh_client sample_config Map.empty (repo_with (JStr (js ''b29wcw=='')) []))) = Inr True \<and>
   remote (snd (createOrUpdateFile ref_platform sample_path (js ''hi'') (js ''second'') (JStr (js ''stale''))
          (fresh_client sample_config Map.empty (repo_with (JStr (js ''b29wcw=='')) [])))) =
     \<lparr>files = [sample_url \<mapsto> (JStr (js ''aGk=''), revToken 1)], revision = 2, faults = []\<rparr> \<and>
   nextResponse (snd (createOrUpdateFile ref_platform sample_path (js ''hi'') (js ''second'') (JStr (js ''stale''))
          (fresh_client sample_config Map.empty (repo_with (JStr (js ''b29wcw=='')) [])))) = 3"
proof -
  let ?s = "fresh_client sample_config Map.empty (repo_with (JStr (js ''b29wcw=='')) [])"
  have c: "config ?s = Some sample_config" by (simp add: fresh_client_def)
  have t: "truthy (JStr (js ''stale''))" by (simp add: js_def)
  have "createOrUpdateFile ref_platform sample_path (js ''hi'') (js ''second'') (JStr (js ''stale'')) ?s =
    (Inr True,
     client_at Map.empty Map.empty
      \<lparr>files = [sample_url \<mapsto> (JStr (js ''aGk=''), js ''rev+'')],
         revision = Suc (Suc 0), faults = []\<rparr>
      [js ''GET-'' @ sample_url @ js ''?ref=main'' \<mapsto>
       Inr (Suc 0,
            answer True 200
             (JObj [(js ''content'', JStr (js ''b29wcw=='')), (js ''sha'', JStr (js ''rev''))])
             [])]
      {Suc (Suc 0), Suc 0, 0} (Suc (Suc (Suc 0))))"
    using retry_policy[OF c, of "js ''hi''" ref_platform sample_path "js ''second''"
        "JStr (js ''stale'')", THEN conjunct2, rule_format,
        of "js ''aGk=''" "JStr (js ''stale'')" ?s] encode_hi t
    by (simp add: fresh_client_at put_result_def comp_defs at_simps putFields_def
     usable_stale gitee_sample includes_sha repo_fetch_def repo_apply_def repo_with_def
     body_member_def revToken_0 js_simps conflict_def[symmetric] file_of_oops store_def
     READ_KEY_def)
  then show ?thesis by (simp add: client_at_def revToken_0 numeral_2_eq_2 numeral_3_eq_3)
qed

lemmas retry_eval = put_result_def comp_defs at_simps putFields_def
     usable_stale gitee_sample includes_sha repo_fetch_def repo_apply_def repo_with_def
     body_member_def revToken_0 js_simps conflict_def[symmetric] file_of_oops store_def
     READ_KEY_def putWithRetry_def put_outcome_def

lemma stale_put:
  "createOrUpdateFile ref_platform sample_path (js ''hi'') (js ''second'') (JStr (js ''stale''))
     (client_at st hc w cache used n) =
   putWithRetry ref_platform sample_config sample_path (js ''second'') (js ''aGk='')
     (JStr (js ''stale'')) (client_at st hc w cache used n)"
proof -
  have t: "truthy (JStr (js ''stale''))" by (simp add: js_def)
  show ?thesis
    using createOrUpdateFile_put_given[OF client_at_sel(1) encode_hi t] t by simp
qed

lemma lost_run:
  "createOrUpdateFile ref_platform sample_path (js ''hi'') (js ''second'') (JStr (js ''stale''))
     (client_at st hc (repo_with (JStr (js ''b29wcw=='')) [False, True]) Map.empty {} 0) =
    (Inr False,
     client_at st hc
      \<lparr>files = [sample_url \<mapsto> (JStr (js ''b29wcw==''), js ''rev'')],
         revision = Suc 0, faults = []\<rparr>
      [js ''GET-'' @ sample_url @ js ''?ref=main'' \<mapsto> Inl NetworkError] {0} (Suc 0))"
  unfolding stale_put by (simp add: retry_eval)

lemma first_read:
  "getFileContent ref_platform sample_path
     (client_at st hc (repo_with (JStr (js ''b29wcw=='')) []) Map.empty {} 0) =
    (Inr (Some \<lparr>content = js ''oops'', sha = JStr (js ''rev'')\<rparr>),
     client_at st hc (repo_with (JStr (js ''b29wcw=='')) [])
      [READ_KEY \<mapsto>
       Inr (0, answer True 200
                (JObj [(js ''content'', JStr (js ''b29wcw=='')), (js ''sha'', JStr (js ''rev''))])
                [])]
      {0} 1)"
  by (simp add: retry_eval)

lemma cached_run:
  "createOrUpdateFile ref_platform sample_path (js ''hi'') (js ''second'') (JStr (js ''stale''))
     (client_at st hc (repo_with (JStr (js ''b29wcw=='')) [])
        [READ_KEY \<mapsto> Inr (0, answer True 200
             (JObj [(js ''content'', JStr (js ''b29wcw=='')), (js ''sha'', JStr (js ''rev''))]) [])]
        {0} 1) =
    (Inr False,
     client_at st hc (repo_with (JStr (js ''b29wcw=='')) [])
      [READ_KEY \<mapsto>
       Inr (0, answer True 200
                (JObj [(js ''content'', JStr (js ''b29wcw=='')), (js ''sha'', JStr (js ''rev''))])
                [])]
      {Suc 0, 0} (Suc (Suc 0)))"
  unfolding stale_put by (simp add: retry_eval)

lemma stale_put_conflict:
  "fst (fetch ref_platform
          (sample_request PUT (Some (JObj (putFields sample_config (js ''second'') (js ''aGk='')
                                             (JStr (js ''stale''))))))
          (repo_with (JStr (js ''b29wcw=='')) (False # fs))) = Inr conflict"
  by (simp add: ref_platform_def retry_eval fileKey_sample sample_request_sel)

text \<open>
  The claim as it stands fails where the read for the fresh token yields
  nothing. The token \<^verbatim>\<open>stale\<close> is not the token of the file, the provider is
  Gitee and the repository answers the write with a conflict whose text
  contains \<^verbatim>\<open>sha\<close>. In the first run the request of the read is lost in the
  network. In the second run the file has been read just before: the read
  for the fresh token is served from the request cache, the body of that
  response has been read already, and \<^verbatim>\<open>getFileContent\<close> returns \<^verbatim>\<open>null\<close>. In
  both runs the put returns false, the write is not repeated, and the file of
  the repository stays as it was.
\<close>

theorem retry_policy_counterexample:
  "provider sample_config = gitee \<and>
   str_includes (text_body conflict) (js ''sha'') \<and>
   fst (fetch ref_platform
          (sample_request PUT (Some (JObj (putFields sample_config (js ''second'') (js ''aGk='')
                                             (JStr (js ''stale''))))))
          (repo_with (JStr (js ''b29wcw=='')) [False, True])) = Inr conflict \<and>
   fst (createOrUpdateFile ref_platform sample_path (js ''hi'') (js ''second'') (JStr (js ''stale''))
          (fresh_client sample_config Map.empty (repo_with (JStr (js ''b29wcw=='')) [False, True])))
     = Inr False \<and>
   remote (snd (createOrUpdateFile ref_platform sample_path (js ''hi'') (js ''second'')
          (JStr (js ''stale''))
          (fresh_client sample_config Map.empty (repo_with (JStr (js ''b29wcw=='')) [False, True]))))
     = repo_with (JStr (js ''b29wcw=='')) [] \<and>
   fst (getFileContent ref_platform sample_path
          (fresh_client sample_config Map.empty (repo_with (JStr (js ''b29wcw=='')) [])))
     = Inr (Some \<lparr>content = js ''oops'', sha = JStr (revToken 0)\<rparr>) \<and>
   fst (createOrUpdateFile ref_platform sample_path (js ''hi'') (js ''second'') (JStr (js ''stale''))
          (snd (getFileContent ref_platform sample_path
             (fresh_client sample_config Map.empty (repo_with (JStr (js ''b29wcw=='')) [])))))
     = Inr False \<and>
   remote (snd (createOrUpdateFile ref_platform sample_path (js ''hi'') (js ''second'')
          (JStr (js ''stale''))
          (snd (getFileContent ref_platform sample_path
             (fresh_client sample_config Map.empty (repo_with (JStr (js ''b29wcw=='')) []))))))
     = repo_with (JStr (js ''b29wcw=='')) []"
proof -
  have 1: "fst (fetch ref_platform
          (sample_request PUT (Some (JObj (putFields sample_config (js ''second'') (js ''aGk='')
                                             (JStr (js ''stale''))))))
          (repo_with (JStr (js ''b29wcw=='')) [False, True])) = Inr conflict"
    by (rule stale_put_conflict)
  note a = lost_run[of Map.empty Map.empty, folded fresh_client_at]
  note b = first_read[of Map.empty Map.empty, folded fresh_client_at]
  have c: "createOrUpdateFile ref_platform sample_path (js ''hi'') (js ''second'')
      (JStr (js ''stale''))
      (snd (getFileContent ref_platform sample_path
         (fresh_client sample_config Map.empty (repo_with (JStr (js ''b29wcw=='')) [])))) =
    (Inr False,
     client_at Map.empty Map.empty (repo_with (JStr (js ''b29wcw=='')) [])
      [READ_KEY \<mapsto>
       Inr (0, answer True 200
                (JObj [(js ''content'', JStr (js ''b29wcw=='')), (js ''sha'', JStr (js ''rev''))])
                [])]
      {Suc 0, 0} (Suc (Suc 0)))"
    unfolding b snd_conv by (rule cached_run)
  have a1: "fst (createOrUpdateFile ref_platform sample_path (js ''hi'') (js ''second'')
          (JStr (js ''stale''))
          (fresh_client sample_config Map.empty (repo_with (JStr (js ''b29wcw=='')) [False, True])))
     = Inr False"
    by (simp only: a fst_conv)
  have a2: "remote (snd (createOrUpdateFile ref_platform sample_path (js ''hi'') (js ''second'')
          (JStr (js ''stale''))
          (fresh_client sample_config Map.empty (repo_with (JStr (js ''b29wcw=='')) [False, True]))))
     = repo_with (JStr (js ''b29wcw=='')) []"
    by (simp only: a snd_conv client_at_sel) (simp add: repo_with_def revToken_0)
  have b1: "fst (getFileContent ref_platform sample_path
          (fresh_client sample_config Map.empty (repo_with (JStr (js ''b29wcw=='')) [])))
     = Inr (Some \<lparr>content = js ''oops'', sha = JStr (revToken 0)\<rparr>)"
    by (simp only: b fst_conv revToken_0)
  have c1: "fst (createOrUpdateFile ref_platform sample_path (js ''hi'') (js ''second'')
          (JStr (js ''stale''))
          (snd (getFileContent ref_platform sample_path
             (fresh_client sample_config Map.empty (repo_with (JStr (js ''b29wcw=='')) [])))))
     = Inr False"
    by (simp only: c fst_conv)
  have c2: "remote (snd (createOrUpdateFile ref_platform sample_path (js ''hi'') (js ''second'')
          (JStr (js ''stale''))
          (snd (getFileContent ref_platform sample_path
             (fresh_client sample_config Map.empty (repo_with (JStr (js ''b29wcw=='')) []))))))
     = repo_with (JStr (js ''b29wcw=='')) []"
    by (simp only: c snd_conv client_at_sel)
  have t: "str_includes (text_body conflict) (js ''sha'')"
    using includes_sha by (simp add: answers)
  show ?thesis
    using 1 t a1 a2 b1 c1 c2 gitee_sample(1) by (intro conjI)
qed

section \<open>The direction of the automatic synchronisation\<close>















































end
